theory Spec2Isabelle
  imports Main
begin

section \<open>Go strings and the runes a range loop sees\<close>

text \<open>
  A Go string is a sequence of bytes: \<open>len(s)\<close> is the number of bytes, and
  \<open>for _, c := range s\<close> decodes UTF-8, one code point per iteration. HOL's
  \<open>string\<close> is a list of 8-bit characters, so \<open>length\<close> is Go's \<open>len\<close>.
  A rune is Go's \<open>int32\<close>; the decoder only produces values from 0 to 0x10FFFF, so
  runes are natural numbers here.
\<close>

type_synonym rune = nat

definition RuneError :: rune where
  "RuneError = 0xFFFD"

text \<open>
  The range of the second byte that the first byte of a multi-byte sequence accepts
  (it excludes overlong encodings, surrogates and code points above 0x10FFFF).
\<close>

definition acceptRange :: "nat \<Rightarrow> nat \<times> nat" where
  "acceptRange b0 =
     (if b0 = 0xE0 then (0xA0, 0xBF)
      else if b0 = 0xED then (0x80, 0x9F)
      else if b0 = 0xF0 then (0x90, 0xBF)
      else if b0 = 0xF4 then (0x80, 0x8F)
      else (0x80, 0xBF))"

definition accepts :: "nat \<Rightarrow> nat \<Rightarrow> bool" where
  "accepts b0 b1 = (fst (acceptRange b0) \<le> b1 \<and> b1 \<le> snd (acceptRange b0))"

definition continuation :: "nat \<Rightarrow> bool" where
  "continuation b = (0x80 \<le> b \<and> b \<le> 0xBF)"

text \<open>
  One step of the range loop at first byte \<open>b0\<close>, with \<open>bs\<close> the bytes after it:
  the rune and the number of bytes it takes. An invalid or truncated sequence gives
  \<open>RuneError\<close> and advances one byte. The masks \<open>b & 0x1F\<close>, \<open>b & 0x0F\<close>,
  \<open>b & 0x07\<close> and \<open>b & 0x3F\<close> of a byte are \<open>mod 32\<close>, \<open>mod 16\<close>, \<open>mod 8\<close>, \<open>mod 64\<close>,
  and the shifts are multiplications.
\<close>

definition decoderune :: "nat \<Rightarrow> nat list \<Rightarrow> rune \<times> nat" where
  "decoderune b0 bs =
     (if b0 < 0x80 then (b0, 1)
      else if 0xC2 \<le> b0 \<and> b0 \<le> 0xDF then
        (case bs of
           b1 # _ \<Rightarrow>
             if accepts b0 b1 then (b0 mod 32 * 64 + b1 mod 64, 2) else (RuneError, 1)
         | _ \<Rightarrow> (RuneError, 1))
      else if 0xE0 \<le> b0 \<and> b0 \<le> 0xEF then
        (case bs of
           b1 # b2 # _ \<Rightarrow>
             if accepts b0 b1 \<and> continuation b2
             then (b0 mod 16 * 4096 + b1 mod 64 * 64 + b2 mod 64, 3)
             else (RuneError, 1)
         | _ \<Rightarrow> (RuneError, 1))
      else if 0xF0 \<le> b0 \<and> b0 \<le> 0xF4 then
        (case bs of
           b1 # b2 # b3 # _ \<Rightarrow>
             if accepts b0 b1 \<and> continuation b2 \<and> continuation b3
             then (b0 mod 8 * 262144 + b1 mod 64 * 4096 + b2 mod 64 * 64 + b3 mod 64, 4)
             else (RuneError, 1)
         | _ \<Rightarrow> (RuneError, 1))
      else (RuneError, 1))"

function runes :: "nat list \<Rightarrow> rune list" where
  "runes [] = []"
| "runes (b0 # bs) = (case decoderune b0 bs of (r, w) \<Rightarrow> r # runes (drop (w - 1) bs))"
  by pat_completeness auto
termination
  by (relation "measure length") auto

definition range_string :: "string \<Rightarrow> rune list" where
  "range_string s = runes (map of_char s)"

section \<open>Character classes of package unicode\<close>

text \<open>
  \<open>unicode.IsLetter\<close> and \<open>unicode.IsDigit\<close> are tables of Go's standard library.
  The functions below take them as a parameter, so every theorem holds for the real
  tables.
\<close>

record unicode =
  IsLetter :: "rune \<Rightarrow> bool"
  IsDigit :: "rune \<Rightarrow> bool"

text \<open>
  The two tables on Latin-1 (code points up to 0xFF), as \<open>unicode.IsLetter\<close> and
  \<open>unicode.IsDigit\<close> answer there: categories Lu, Ll, Lo for letters, Nd for digits.
  Above 0xFF this instance answers no; it is used only at concrete inputs within Latin-1.
\<close>

definition Latin1 :: unicode where
  "Latin1 =
     \<lparr> IsLetter = (\<lambda>r. (0x41 \<le> r \<and> r \<le> 0x5A) \<or> (0x61 \<le> r \<and> r \<le> 0x7A)
                     \<or> r = 0xAA \<or> r = 0xB5 \<or> r = 0xBA
                     \<or> (0xC0 \<le> r \<and> r \<le> 0xD6) \<or> (0xD8 \<le> r \<and> r \<le> 0xF6)
                     \<or> (0xF8 \<le> r \<and> r \<le> 0xFF)),
       IsDigit = (\<lambda>r. 0x30 \<le> r \<and> r \<le> 0x39) \<rparr>"

section \<open>Errors\<close>

text \<open>
  An error returned by a workflow component. \<open>ErrInstanceNotFound\<close> is the sentinel
  \<open>api.ErrInstanceNotFound\<close>; \<open>Wrap\<close> is an error that wraps another one
  (\<open>fmt.Errorf("...: %w", err)\<close>); \<open>EngineFailure\<close> is any other error.
\<close>

datatype engine_error =
    ErrInstanceNotFound
  | EngineFailure string
  | Wrap string engine_error

text \<open>\<open>errors.Is(err, api.ErrInstanceNotFound)\<close>: follows the chain of wrapped errors.\<close>

fun errors_Is_ErrInstanceNotFound :: "engine_error \<Rightarrow> bool" where
  "errors_Is_ErrInstanceNotFound ErrInstanceNotFound = True"
| "errors_Is_ErrInstanceNotFound (EngineFailure m) = False"
| "errors_Is_ErrInstanceNotFound (Wrap m e) = errors_Is_ErrInstanceNotFound e"

text \<open>
  The error constants of package \<open>messages\<close> that the handlers use. Their format strings
  are not part of the source file; an error is the constant together with the
  arguments \<open>WithFormat\<close> received, in order.
\<close>

datatype message =
    ErrMissingOrEmptyInstance
  | ErrInstanceIDTooLong
  | ErrInvalidInstanceID
  | ErrWorkflowNameMissing
  | ErrMissingWorkflowEventName
  | ErrNoOrMissingWorkflowComponent
  | ErrWorkflowComponentDoesNotExist
  | ErrWorkflowInstanceNotFound
  | ErrWorkflowGetResponse
  | ErrStartWorkflow
  | ErrTerminateWorkflow
  | ErrRaiseEventWorkflow
  | ErrPauseWorkflow
  | ErrResumeWorkflow
  | ErrPurgeWorkflow

datatype fmt_arg = StrArg string | IntArg nat | ErrArg engine_error

datatype api_error = APIError message "fmt_arg list"

definition WithFormat :: "message \<Rightarrow> fmt_arg list \<Rightarrow> api_error" where
  "WithFormat m args = APIError m args"

fun msg :: "api_error \<Rightarrow> message" where
  "msg (APIError m args) = m"

fun args :: "api_error \<Rightarrow> fmt_arg list" where
  "args (APIError m xs) = xs"

section \<open>validateInstanceID\<close>

definition maxInstanceIDLength :: nat where
  "maxInstanceIDLength = 64"

text \<open>
  The loop \<open>for _, c := range instanceID\<close>: the first rune that is neither a letter,
  \<open>'_'\<close> (0x5F), \<open>'-'\<close> (0x2D) nor a digit ends it with \<open>ErrInvalidInstanceID\<close>.
\<close>

fun checkRunes :: "unicode \<Rightarrow> string \<Rightarrow> rune list \<Rightarrow> api_error option" where
  "checkRunes U instanceID [] = None"
| "checkRunes U instanceID (c # cs) =
     (if \<not> IsLetter U c \<and> c \<noteq> 0x5F \<and> c \<noteq> 0x2D \<and> \<not> IsDigit U c
      then Some (WithFormat ErrInvalidInstanceID [StrArg instanceID])
      else checkRunes U instanceID cs)"

definition validateInstanceID :: "unicode \<Rightarrow> string \<Rightarrow> bool \<Rightarrow> api_error option" where
  "validateInstanceID U instanceID isCreate =
     (if instanceID = [] then Some (APIError ErrMissingOrEmptyInstance [])
      else if isCreate then
        (if length instanceID > maxInstanceIDLength
         then Some (WithFormat ErrInstanceIDTooLong [IntArg maxInstanceIDLength])
         else checkRunes U instanceID (range_string instanceID))
      else None)"

text \<open>The characters the create path allows: letters, digits, dashes and underscores.\<close>

definition allowed :: "unicode \<Rightarrow> rune \<Rightarrow> bool" where
  "allowed U c = (IsLetter U c \<or> IsDigit U c \<or> c = 0x2D \<or> c = 0x5F)"

section \<open>Requests, responses and the workflow component\<close>

type_synonym bytes = "char list"

text \<open>
  The request messages of \<open>runtimev1pb\<close>. Get, Terminate, Pause, Resume and Purge
  requests carry an instance id and a component name; Start and RaiseEvent requests
  extend them. A handler receives a non-nil request from the transport.
\<close>

record WorkflowRequest =
  InstanceId :: string
  WorkflowComponent :: string

record StartWorkflowRequest = WorkflowRequest +
  WorkflowName :: string
  Options :: "string \<rightharpoonup> string"
  Input :: bytes

record RaiseEventWorkflowRequest = WorkflowRequest +
  EventName :: string
  EventData :: bytes

type_synonym GetWorkflowRequest = WorkflowRequest
type_synonym TerminateWorkflowRequest = WorkflowRequest
type_synonym PauseWorkflowRequest = WorkflowRequest
type_synonym ResumeWorkflowRequest = WorkflowRequest
type_synonym PurgeWorkflowRequest = WorkflowRequest

text \<open>
  What \<open>timestamppb.New\<close> reads of a \<open>time.Time\<close>: its Unix seconds and the
  nanoseconds within the second.
\<close>

record Time =
  Unix :: int
  Nanosecond :: int

record Timestamp =
  Seconds :: int
  Nanos :: int

definition timestamppb_New :: "Time \<Rightarrow> Timestamp" where
  "timestamppb_New t = \<lparr> Seconds = Unix t, Nanos = Nanosecond t \<rparr>"

text \<open>
  The response messages, fields in the order of the source:
  \<open>GetWorkflowResponse InstanceId WorkflowName CreatedAt LastUpdatedAt RuntimeStatus
  Properties\<close> (the two timestamps are pointers, nil in the zero value),
  \<open>StartWorkflowResponse InstanceId\<close>, and \<open>emptypb.Empty\<close>.
\<close>

datatype GetWorkflowResponse =
  GetWorkflowResponse string string "Timestamp option" "Timestamp option" string
    "string \<rightharpoonup> string"

datatype StartWorkflowResponse = StartWorkflowResponse string

datatype Empty = Empty

definition GetWorkflowResponse_zero :: GetWorkflowResponse where
  "GetWorkflowResponse_zero = GetWorkflowResponse [] [] None None [] Map.empty"

definition StartWorkflowResponse_zero :: StartWorkflowResponse where
  "StartWorkflowResponse_zero = StartWorkflowResponse []"

text \<open>
  The requests and responses of package \<open>workflows\<close>:
  \<open>GetRequest InstanceID\<close>, \<open>StartRequest InstanceID Options WorkflowName WorkflowInput\<close>,
  \<open>RaiseEventRequest InstanceID EventName EventData\<close>,
  \<open>WorkflowState InstanceID WorkflowName CreatedAt LastUpdatedAt RuntimeStatus Properties\<close>,
  \<open>StateResponse Workflow\<close> (a pointer to a \<open>WorkflowState\<close>) and
  \<open>StartResponse InstanceID\<close>.
\<close>

datatype GetRequest = GetRequest string
datatype StartRequest = StartRequest string "string \<rightharpoonup> string" string bytes
datatype TerminateRequest = TerminateRequest string
datatype RaiseEventRequest = RaiseEventRequest string string bytes
datatype PauseRequest = PauseRequest string
datatype ResumeRequest = ResumeRequest string
datatype PurgeRequest = PurgeRequest string

datatype WorkflowState =
  WorkflowState string string Time Time string "string \<rightharpoonup> string"

datatype StateResponse = StateResponse "WorkflowState option"

datatype StartResponse = StartResponse string

text \<open>
  The interface \<open>workflows.Workflow\<close>. A component is outside this file: each method
  is a function of the request and of the state \<open>'s\<close> behind the components (the call's
  context included), giving Go's result pair, or the error alone, and the next state.
\<close>

record 's Workflow =
  Get :: "GetRequest \<Rightarrow> 's \<Rightarrow> (StateResponse option \<times> engine_error option) \<times> 's"
  Start :: "StartRequest \<Rightarrow> 's \<Rightarrow> (StartResponse option \<times> engine_error option) \<times> 's"
  Terminate :: "TerminateRequest \<Rightarrow> 's \<Rightarrow> engine_error option \<times> 's"
  RaiseEvent :: "RaiseEventRequest \<Rightarrow> 's \<Rightarrow> engine_error option \<times> 's"
  Pause :: "PauseRequest \<Rightarrow> 's \<Rightarrow> engine_error option \<times> 's"
  Resume :: "ResumeRequest \<Rightarrow> 's \<Rightarrow> engine_error option \<times> 's"
  Purge :: "PurgeRequest \<Rightarrow> 's \<Rightarrow> engine_error option \<times> 's"

text \<open>
  The receiver: \<open>CompStore a name\<close> is \<open>a.CompStore.GetWorkflow(name)\<close>, the registry
  of components by name. Registered components are non-nil.
\<close>

record 's UniversalAPI =
  CompStore :: "string \<rightharpoonup> 's Workflow"

section \<open>Effects\<close>

text \<open>
  What a handler does besides returning: it logs errors, waits for the actors, and
  calls a method of a component. The trace records these in order, oldest first; a
  call is recorded with the name of the component and the request.
\<close>

datatype engine_call =
    CallGet GetRequest
  | CallStart StartRequest
  | CallTerminate TerminateRequest
  | CallRaiseEvent RaiseEventRequest
  | CallPause PauseRequest
  | CallResume ResumeRequest
  | CallPurge PurgeRequest

datatype event =
    Debug api_error
  | ActorsReady
  | Call string engine_call

record 's world =
  engine :: 's
  trace :: "event list"

definition Logger_Debug :: "api_error \<Rightarrow> 's world \<Rightarrow> 's world" where
  "Logger_Debug err w = w\<lparr> trace := trace w @ [Debug err] \<rparr>"

text \<open>
  \<open>a.WaitForActorsReady(ctx)\<close> blocks until the actor runtime is ready; the model
  covers the runs in which it returns.
\<close>

definition WaitForActorsReady :: "'s world \<Rightarrow> 's world" where
  "WaitForActorsReady w = w\<lparr> trace := trace w @ [ActorsReady] \<rparr>"

definition invoke :: "string \<Rightarrow> engine_call \<Rightarrow> ('s \<Rightarrow> 'r \<times> 's) \<Rightarrow> 's world \<Rightarrow> 'r \<times> 's world" where
  "invoke name c f w =
     (case f (engine w) of
        (r, s) \<Rightarrow> (r, w\<lparr> engine := s, trace := trace w @ [Call name c] \<rparr>))"

fun is_Call :: "event \<Rightarrow> bool" where
  "is_Call (Call name c) = True"
| "is_Call e = False"

text \<open>
  What a handler gives back: Go's pair of a response pointer and an error (\<open>None\<close> is
  nil), or a panic.
\<close>

datatype 'r outcome = Return "'r option" "api_error option" | Panic

section \<open>getWorkflowComponent\<close>

definition getWorkflowComponent ::
  "'s UniversalAPI \<Rightarrow> string \<Rightarrow> 's world \<Rightarrow> (api_error + 's Workflow) \<times> 's world" where
  "getWorkflowComponent a componentName w =
     (if componentName = [] then (Inl (APIError ErrNoOrMissingWorkflowComponent []), w)
      else
        (case CompStore a componentName of
           None \<Rightarrow>
             (let err = WithFormat ErrWorkflowComponentDoesNotExist [StrArg componentName]
              in (Inl err, Logger_Debug err w))
         | Some workflowComponent \<Rightarrow> (Inr workflowComponent, w)))"

section \<open>The handlers\<close>

definition GetWorkflowBeta1 ::
  "unicode \<Rightarrow> 's UniversalAPI \<Rightarrow> GetWorkflowRequest \<Rightarrow> 's world
     \<Rightarrow> GetWorkflowResponse outcome \<times> 's world" where
  "GetWorkflowBeta1 U a inp w =
     (case validateInstanceID U (InstanceId inp) False of
        Some err \<Rightarrow> (Return (Some GetWorkflowResponse_zero) (Some err), Logger_Debug err w)
      | None \<Rightarrow>
         (case getWorkflowComponent a (WorkflowComponent inp) (WaitForActorsReady w) of
            (Inl err, w1) \<Rightarrow>
              (Return (Some GetWorkflowResponse_zero) (Some err), Logger_Debug err w1)
          | (Inr workflowComponent, w1) \<Rightarrow>
             (let req = GetRequest (InstanceId inp) in
              case invoke (WorkflowComponent inp) (CallGet req) (Get workflowComponent req) w1 of
                ((response, err), w2) \<Rightarrow>
                  (case err of
                     Some err \<Rightarrow>
                       (let err' =
                          (if errors_Is_ErrInstanceNotFound err
                           then WithFormat ErrWorkflowInstanceNotFound
                                  [StrArg (InstanceId inp), ErrArg err]
                           else WithFormat ErrWorkflowGetResponse
                                  [StrArg (InstanceId inp), ErrArg err])
                        in (Return (Some GetWorkflowResponse_zero) (Some err'),
                            Logger_Debug err' w2))
                   | None \<Rightarrow>
                       (case response of
                          None \<Rightarrow> (Panic, w2)
                        | Some (StateResponse None) \<Rightarrow> (Panic, w2)
                        | Some (StateResponse
                                 (Some (WorkflowState iid name created updated status props))) \<Rightarrow>
                            (Return
                               (Some (GetWorkflowResponse iid name
                                        (Some (timestamppb_New created))
                                        (Some (timestamppb_New updated)) status props))
                               None, w2))))))"

definition StartWorkflowBeta1 ::
  "unicode \<Rightarrow> 's UniversalAPI \<Rightarrow> StartWorkflowRequest \<Rightarrow> 's world
     \<Rightarrow> StartWorkflowResponse outcome \<times> 's world" where
  "StartWorkflowBeta1 U a inp w =
     (case validateInstanceID U (InstanceId inp) True of
        Some err \<Rightarrow> (Return (Some StartWorkflowResponse_zero) (Some err), Logger_Debug err w)
      | None \<Rightarrow>
         if WorkflowName inp = [] then
           (let err = APIError ErrWorkflowNameMissing []
            in (Return (Some StartWorkflowResponse_zero) (Some err), Logger_Debug err w))
         else
         (case getWorkflowComponent a (WorkflowComponent inp) (WaitForActorsReady w) of
            (Inl err, w1) \<Rightarrow>
              (Return (Some StartWorkflowResponse_zero) (Some err), Logger_Debug err w1)
          | (Inr workflowComponent, w1) \<Rightarrow>
             (let req = StartRequest (InstanceId inp) (Options inp) (WorkflowName inp) (Input inp) in
              case invoke (WorkflowComponent inp) (CallStart req) (Start workflowComponent req) w1 of
                ((resp, err), w2) \<Rightarrow>
                  (case err of
                     Some err \<Rightarrow>
                       (let err' = WithFormat ErrStartWorkflow
                                     [StrArg (WorkflowName inp), ErrArg err]
                        in (Return (Some StartWorkflowResponse_zero) (Some err'),
                            Logger_Debug err' w2))
                   | None \<Rightarrow>
                       (case resp of
                          None \<Rightarrow> (Panic, w2)
                        | Some (StartResponse iid) \<Rightarrow>
                            (Return (Some (StartWorkflowResponse iid)) None, w2))))))"

definition TerminateWorkflowBeta1 ::
  "unicode \<Rightarrow> 's UniversalAPI \<Rightarrow> TerminateWorkflowRequest \<Rightarrow> 's world
     \<Rightarrow> Empty outcome \<times> 's world" where
  "TerminateWorkflowBeta1 U a inp w =
     (let emptyResponse = Some Empty in
      case validateInstanceID U (InstanceId inp) False of
        Some err \<Rightarrow> (Return emptyResponse (Some err), Logger_Debug err w)
      | None \<Rightarrow>
         (case getWorkflowComponent a (WorkflowComponent inp) (WaitForActorsReady w) of
            (Inl err, w1) \<Rightarrow> (Return emptyResponse (Some err), Logger_Debug err w1)
          | (Inr workflowComponent, w1) \<Rightarrow>
             (let req = TerminateRequest (InstanceId inp) in
              case invoke (WorkflowComponent inp) (CallTerminate req)
                     (Terminate workflowComponent req) w1 of
                (Some err, w2) \<Rightarrow>
                  (let err' =
                     (if errors_Is_ErrInstanceNotFound err
                      then WithFormat ErrWorkflowInstanceNotFound
                             [StrArg (InstanceId inp), ErrArg err]
                      else WithFormat ErrTerminateWorkflow
                             [StrArg (InstanceId inp), ErrArg err])
                   in (Return emptyResponse (Some err'), Logger_Debug err' w2))
              | (None, w2) \<Rightarrow> (Return emptyResponse None, w2))))"

definition RaiseEventWorkflowBeta1 ::
  "unicode \<Rightarrow> 's UniversalAPI \<Rightarrow> RaiseEventWorkflowRequest \<Rightarrow> 's world
     \<Rightarrow> Empty outcome \<times> 's world" where
  "RaiseEventWorkflowBeta1 U a inp w =
     (let emptyResponse = Some Empty in
      case validateInstanceID U (InstanceId inp) False of
        Some err \<Rightarrow> (Return emptyResponse (Some err), Logger_Debug err w)
      | None \<Rightarrow>
         if EventName inp = [] then
           (let err = APIError ErrMissingWorkflowEventName []
            in (Return emptyResponse (Some err), Logger_Debug err w))
         else
         (case getWorkflowComponent a (WorkflowComponent inp) (WaitForActorsReady w) of
            (Inl err, w1) \<Rightarrow> (Return emptyResponse (Some err), Logger_Debug err w1)
          | (Inr workflowComponent, w1) \<Rightarrow>
             (let req = RaiseEventRequest (InstanceId inp) (EventName inp) (EventData inp) in
              case invoke (WorkflowComponent inp) (CallRaiseEvent req)
                     (RaiseEvent workflowComponent req) w1 of
                (Some err, w2) \<Rightarrow>
                  (let err' = WithFormat ErrRaiseEventWorkflow
                                [StrArg (InstanceId inp), ErrArg err]
                   in (Return emptyResponse (Some err'), Logger_Debug err' w2))
              | (None, w2) \<Rightarrow> (Return emptyResponse None, w2))))"

definition PauseWorkflowBeta1 ::
  "unicode \<Rightarrow> 's UniversalAPI \<Rightarrow> PauseWorkflowRequest \<Rightarrow> 's world
     \<Rightarrow> Empty outcome \<times> 's world" where
  "PauseWorkflowBeta1 U a inp w =
     (let emptyResponse = Some Empty in
      case validateInstanceID U (InstanceId inp) False of
        Some err \<Rightarrow> (Return emptyResponse (Some err), Logger_Debug err w)
      | None \<Rightarrow>
         (case getWorkflowComponent a (WorkflowComponent inp) (WaitForActorsReady w) of
            (Inl err, w1) \<Rightarrow> (Return emptyResponse (Some err), Logger_Debug err w1)
          | (Inr workflowComponent, w1) \<Rightarrow>
             (let req = PauseRequest (InstanceId inp) in
              case invoke (WorkflowComponent inp) (CallPause req)
                     (Pause workflowComponent req) w1 of
                (Some err, w2) \<Rightarrow>
                  (let err' = WithFormat ErrPauseWorkflow [StrArg (InstanceId inp), ErrArg err]
                   in (Return emptyResponse (Some err'), Logger_Debug err' w2))
              | (None, w2) \<Rightarrow> (Return emptyResponse None, w2))))"

definition ResumeWorkflowBeta1 ::
  "unicode \<Rightarrow> 's UniversalAPI \<Rightarrow> ResumeWorkflowRequest \<Rightarrow> 's world
     \<Rightarrow> Empty outcome \<times> 's world" where
  "ResumeWorkflowBeta1 U a inp w =
     (let emptyResponse = Some Empty in
      case validateInstanceID U (InstanceId inp) False of
        Some err \<Rightarrow> (Return emptyResponse (Some err), Logger_Debug err w)
      | None \<Rightarrow>
         (case getWorkflowComponent a (WorkflowComponent inp) (WaitForActorsReady w) of
            (Inl err, w1) \<Rightarrow> (Return emptyResponse (Some err), Logger_Debug err w1)
          | (Inr workflowComponent, w1) \<Rightarrow>
             (let req = ResumeRequest (InstanceId inp) in
              case invoke (WorkflowComponent inp) (CallResume req)
                     (Resume workflowComponent req) w1 of
                (Some err, w2) \<Rightarrow>
                  (let err' = WithFormat ErrResumeWorkflow [StrArg (InstanceId inp), ErrArg err]
                   in (Return emptyResponse (Some err'), Logger_Debug err' w2))
              | (None, w2) \<Rightarrow> (Return emptyResponse None, w2))))"

definition PurgeWorkflowBeta1 ::
  "unicode \<Rightarrow> 's UniversalAPI \<Rightarrow> PurgeWorkflowRequest \<Rightarrow> 's world
     \<Rightarrow> Empty outcome \<times> 's world" where
  "PurgeWorkflowBeta1 U a inp w =
     (let emptyResponse = Some Empty in
      case validateInstanceID U (InstanceId inp) False of
        Some err \<Rightarrow> (Return emptyResponse (Some err), Logger_Debug err w)
      | None \<Rightarrow>
         (case getWorkflowComponent a (WorkflowComponent inp) (WaitForActorsReady w) of
            (Inl err, w1) \<Rightarrow> (Return emptyResponse (Some err), Logger_Debug err w1)
          | (Inr workflowComponent, w1) \<Rightarrow>
             (let req = PurgeRequest (InstanceId inp) in
              case invoke (WorkflowComponent inp) (CallPurge req)
                     (Purge workflowComponent req) w1 of
                (Some err, w2) \<Rightarrow>
                  (let err' =
                     (if errors_Is_ErrInstanceNotFound err
                      then WithFormat ErrWorkflowInstanceNotFound
                             [StrArg (InstanceId inp), ErrArg err]
                      else WithFormat ErrPurgeWorkflow
                             [StrArg (InstanceId inp), ErrArg err])
                   in (Return emptyResponse (Some err'), Logger_Debug err' w2))
              | (None, w2) \<Rightarrow> (Return emptyResponse None, w2))))"

definition GetWorkflowAlpha1 ::
  "unicode \<Rightarrow> 's UniversalAPI \<Rightarrow> GetWorkflowRequest \<Rightarrow> 's world
     \<Rightarrow> GetWorkflowResponse outcome \<times> 's world" where
  "GetWorkflowAlpha1 U a inp w = GetWorkflowBeta1 U a inp w"

definition StartWorkflowAlpha1 ::
  "unicode \<Rightarrow> 's UniversalAPI \<Rightarrow> StartWorkflowRequest \<Rightarrow> 's world
     \<Rightarrow> StartWorkflowResponse outcome \<times> 's world" where
  "StartWorkflowAlpha1 U a inp w = StartWorkflowBeta1 U a inp w"

definition TerminateWorkflowAlpha1 ::
  "unicode \<Rightarrow> 's UniversalAPI \<Rightarrow> TerminateWorkflowRequest \<Rightarrow> 's world
     \<Rightarrow> Empty outcome \<times> 's world" where
  "TerminateWorkflowAlpha1 U a inp w = TerminateWorkflowBeta1 U a inp w"

definition RaiseEventWorkflowAlpha1 ::
  "unicode \<Rightarrow> 's UniversalAPI \<Rightarrow> RaiseEventWorkflowRequest \<Rightarrow> 's world
     \<Rightarrow> Empty outcome \<times> 's world" where
  "RaiseEventWorkflowAlpha1 U a inp w = RaiseEventWorkflowBeta1 U a inp w"

definition PauseWorkflowAlpha1 ::
  "unicode \<Rightarrow> 's UniversalAPI \<Rightarrow> PauseWorkflowRequest \<Rightarrow> 's world
     \<Rightarrow> Empty outcome \<times> 's world" where
  "PauseWorkflowAlpha1 U a inp w = PauseWorkflowBeta1 U a inp w"

definition ResumeWorkflowAlpha1 ::
  "unicode \<Rightarrow> 's UniversalAPI \<Rightarrow> ResumeWorkflowRequest \<Rightarrow> 's world
     \<Rightarrow> Empty outcome \<times> 's world" where
  "ResumeWorkflowAlpha1 U a inp w = ResumeWorkflowBeta1 U a inp w"

definition PurgeWorkflowAlpha1 ::
  "unicode \<Rightarrow> 's UniversalAPI \<Rightarrow> PurgeWorkflowRequest \<Rightarrow> 's world
     \<Rightarrow> Empty outcome \<times> 's world" where
  "PurgeWorkflowAlpha1 U a inp w = PurgeWorkflowBeta1 U a inp w"

section \<open>The error taxonomy and observations on a run\<close>

datatype ErrorCondition =
    MissingIdentifier
  | IdentifierTooLong
  | InvalidIdentifier
  | MissingWorkflowName
  | MissingEventName
  | MissingComponentName
  | UnknownComponent
  | InstanceNotFound
  | OperationFailed

text \<open>
  Modelled from the spec: package \<open>messages\<close>, whose constants the handlers return, is
  not part of the source file. The taxonomy of the specification (section 7) names
  each condition by its trigger; \<open>kind\<close> gives every constant the condition it is
  returned for. The seven constants of the engine failures, one per operation, are the
  \<open>OperationFailed\<close> conditions.
\<close>

fun kind :: "message \<Rightarrow> ErrorCondition" where
  "kind ErrMissingOrEmptyInstance = MissingIdentifier"
| "kind ErrInstanceIDTooLong = IdentifierTooLong"
| "kind ErrInvalidInstanceID = InvalidIdentifier"
| "kind ErrWorkflowNameMissing = MissingWorkflowName"
| "kind ErrMissingWorkflowEventName = MissingEventName"
| "kind ErrNoOrMissingWorkflowComponent = MissingComponentName"
| "kind ErrWorkflowComponentDoesNotExist = UnknownComponent"
| "kind ErrWorkflowInstanceNotFound = InstanceNotFound"
| "kind ErrWorkflowGetResponse = OperationFailed"
| "kind ErrStartWorkflow = OperationFailed"
| "kind ErrTerminateWorkflow = OperationFailed"
| "kind ErrRaiseEventWorkflow = OperationFailed"
| "kind ErrPauseWorkflow = OperationFailed"
| "kind ErrResumeWorkflow = OperationFailed"
| "kind ErrPurgeWorkflow = OperationFailed"

text \<open>
  \<open>fails res zero k err\<close>: the run \<open>res\<close> of a handler returned the non-nil response
  \<open>zero\<close> together with the error \<open>err\<close>, whose condition is \<open>k\<close>.
\<close>

definition fails :: "'r outcome \<times> 's world \<Rightarrow> 'r \<Rightarrow> ErrorCondition \<Rightarrow> api_error \<Rightarrow> bool" where
  "fails res zero k err = (fst res = Return (Some zero) (Some err) \<and> kind (msg err) = k)"

text \<open>An error carries \<open>x\<close> when \<open>x\<close> is one of the arguments it was formatted with.\<close>

definition carries :: "api_error \<Rightarrow> fmt_arg \<Rightarrow> bool" where
  "carries err x = (x \<in> set (args err))"

text \<open>The calls to component methods recorded in a world.\<close>

definition calls :: "'s world \<Rightarrow> event list" where
  "calls w = filter is_Call (trace w)"

text \<open>
  The shape of what a handler gives back: a returned response is never nil, and next to
  an error it is the zero value.
\<close>

definition failure_shape :: "'r \<Rightarrow> 'r outcome \<Rightarrow> bool" where
  "failure_shape zero out =
     (case out of
        Return r (Some err) \<Rightarrow> r = Some zero
      | Return r None \<Rightarrow> r \<noteq> None
      | Panic \<Rightarrow> True)"

text \<open>The error a handler returned; a panic returns none.\<close>

fun returned_error :: "'r outcome \<Rightarrow> api_error option" where
  "returned_error (Return r err) = err"
| "returned_error Panic = None"

text \<open>
  \<open>resolved_and_ok a name call\<close>: the name is not empty, a component is registered
  under it, and \<open>call\<close>, the error of the method called on it, is nil.
\<close>

definition resolved_and_ok ::
  "'s UniversalAPI \<Rightarrow> string \<Rightarrow> ('s Workflow \<Rightarrow> engine_error option) \<Rightarrow> bool" where
  "resolved_and_ok a name call =
     (name \<noteq> [] \<and> (case CompStore a name of None \<Rightarrow> False | Some c \<Rightarrow> call c = None))"

section \<open>Concrete inputs\<close>

text \<open>
  The instances that the theorems are run on. \<open>e_acute n\<close> is the id of \<open>n\<close> letters
  U+00E9, two bytes each in UTF-8. \<open>stub r\<close> is a component whose methods count the calls
  in the state and all return the error \<open>r\<close>, or succeed when \<open>r\<close> is \<open>None\<close>;
  \<open>api r\<close> registers it under the name \<open>redis\<close>.
\<close>

definition e_acute :: "nat \<Rightarrow> string" where
  "e_acute n = concat (replicate n [CHR 0xC3, CHR 0xA9])"

definition epoch :: Time where
  "epoch = \<lparr> Unix = 0, Nanosecond = 0 \<rparr>"

definition stub :: "engine_error option \<Rightarrow> nat Workflow" where
  "stub r =
     \<lparr> Get = (\<lambda>req s. case req of GetRequest iid \<Rightarrow>
                 (((case r of
                      None \<Rightarrow> Some (StateResponse (Some (WorkflowState iid ''order'' epoch epoch
                                                         ''RUNNING'' Map.empty)))
                    | Some e \<Rightarrow> None), r), Suc s)),
       Start = (\<lambda>req s. case req of StartRequest iid opts name input \<Rightarrow>
                 (((case r of None \<Rightarrow> Some (StartResponse iid) | Some e \<Rightarrow> None), r), Suc s)),
       Terminate = (\<lambda>req s. (r, Suc s)),
       RaiseEvent = (\<lambda>req s. (r, Suc s)),
       Pause = (\<lambda>req s. (r, Suc s)),
       Resume = (\<lambda>req s. (r, Suc s)),
       Purge = (\<lambda>req s. (r, Suc s)) \<rparr>"

definition api :: "engine_error option \<Rightarrow> nat UniversalAPI" where
  "api r = \<lparr> CompStore = [''redis'' \<mapsto> stub r] \<rparr>"

definition w0 :: "nat world" where
  "w0 = \<lparr> engine = 0, trace = [] \<rparr>"

definition request :: "string \<Rightarrow> string \<Rightarrow> WorkflowRequest" where
  "request iid component = \<lparr> InstanceId = iid, WorkflowComponent = component \<rparr>"

definition start_request :: "string \<Rightarrow> string \<Rightarrow> string \<Rightarrow> StartWorkflowRequest" where
  "start_request iid component name =
     \<lparr> InstanceId = iid, WorkflowComponent = component, WorkflowName = name,
       Options = Map.empty, Input = [] \<rparr>"

definition event_request :: "string \<Rightarrow> string \<Rightarrow> string \<Rightarrow> RaiseEventWorkflowRequest" where
  "event_request iid component name =
     \<lparr> InstanceId = iid, WorkflowComponent = component, EventName = name, EventData = [] \<rparr>"

section \<open>Shared facts\<close>

lemmas run_defs = getWorkflowComponent_def WaitForActorsReady_def invoke_def WithFormat_def
  Logger_Debug_def Let_def calls_def

lemma checkRunes_None: "(checkRunes U s cs = None) = list_all (allowed U) cs"
  by (induction cs) (auto simp: allowed_def)

lemma length_runes: "length (runes bs) \<le> length bs"
proof (induction bs rule: runes.induct)
  case 1
  show ?case by simp
next
  case (2 b0 bs)
  obtain r w where d: "decoderune b0 bs = (r, w)" by (cases "decoderune b0 bs")
  have "length (runes (drop (w - 1) bs)) \<le> length (drop (w - 1) bs)"
    using 2 d by simp
  then show ?case using d by simp
qed

lemma length_range_string: "length (range_string s) \<le> length s"
  using length_runes [of "map of_char s"] by (simp add: range_string_def)

lemma runes_e_acute: "runes (0xC3 # 0xA9 # bs) = 0xE9 # runes bs"
  by (simp add: decoderune_def accepts_def acceptRange_def)

lemma range_string_e_acute: "range_string (e_acute n) = replicate n 0xE9"
  by (induction n)
     (simp_all add: range_string_def e_acute_def runes_e_acute del: runes.simps(2))

lemma length_e_acute: "length (e_acute n) = 2 * n"
  by (induction n) (simp_all add: e_acute_def)

lemma e_acute_nonempty: "0 < n \<Longrightarrow> e_acute n \<noteq> []"
  using length_e_acute [of n] by auto

lemma validate_noncreate:
  "validateInstanceID U s False =
     (if s = [] then Some (APIError ErrMissingOrEmptyInstance []) else None)"
  by (simp add: validateInstanceID_def)

lemma validate_empty:
  "validateInstanceID U [] c = Some (APIError ErrMissingOrEmptyInstance [])"
  by (simp add: validateInstanceID_def)

lemma resolve_empty:
  "getWorkflowComponent a [] w = (Inl (APIError ErrNoOrMissingWorkflowComponent []), w)"
  by (simp add: getWorkflowComponent_def)

lemma resolve_unknown:
  "name \<noteq> [] \<Longrightarrow> CompStore a name = None \<Longrightarrow>
   getWorkflowComponent a name w =
     (Inl (APIError ErrWorkflowComponentDoesNotExist [StrArg name]),
      Logger_Debug (APIError ErrWorkflowComponentDoesNotExist [StrArg name]) w)"
  by (simp add: getWorkflowComponent_def WithFormat_def Let_def)

lemma resolve_known:
  "name \<noteq> [] \<Longrightarrow> CompStore a name = Some c \<Longrightarrow> getWorkflowComponent a name w = (Inr c, w)"
  by (simp add: getWorkflowComponent_def)

lemma resolve_Inl_world:
  "getWorkflowComponent a name w = (Inl err, w1) \<Longrightarrow> calls w1 = calls w \<and> engine w1 = engine w"
  by (auto simp: run_defs split: if_splits option.splits)

lemma resolve_world:
  "calls (snd (getWorkflowComponent a name w)) = calls w
   \<and> engine (snd (getWorkflowComponent a name w)) = engine w"
  by (simp add: run_defs split: option.split)

lemma world_simps:
  "calls (Logger_Debug e w) = calls w" "engine (Logger_Debug e w) = engine w"
  "calls (WaitForActorsReady w) = calls w" "engine (WaitForActorsReady w) = engine w"
  by (simp_all add: run_defs)

section \<open>Validation of instance ids\<close>

text \<open>
  Claim C1, as stated, at a concrete id: 33 letters U+00E9 are a non-empty id of at most
  64 characters, all of them letters, yet create-mode validation rejects it with
  \<open>ErrInstanceIDTooLong\<close>: the id is 66 bytes long, and \<open>len\<close> counts bytes.
\<close>

theorem C1_characters_counterexample:
  "e_acute 33 \<noteq> []
   \<and> length (range_string (e_acute 33)) = 33
   \<and> list_all (allowed Latin1) (range_string (e_acute 33))
   \<and> length (e_acute 33) = 66
   \<and> validateInstanceID Latin1 (e_acute 33) True
       = Some (APIError ErrInstanceIDTooLong [IntArg 64])"
  by (simp add: validateInstanceID_def e_acute_nonempty length_e_acute range_string_e_acute
        maxInstanceIDLength_def WithFormat_def list_all_iff allowed_def Latin1_def)

text \<open>
  Claim C1, amended: for every non-empty instance id of at most 64 bytes (its length in
  UTF-8) whose characters, as the range loop decodes them, are each a Unicode letter, a
  Unicode digit, \<open>'-'\<close> or \<open>'_'\<close>, create-mode validation succeeds and returns no error.
  The classes are the full Unicode tables: the theorem holds for any tables \<open>U\<close>.
\<close>

theorem C1_validate_create_accepts:
  assumes "instanceID \<noteq> []"
    and "length instanceID \<le> 64"
    and "list_all (allowed U) (range_string instanceID)"
  shows "validateInstanceID U instanceID True = None"
  using assms by (simp add: validateInstanceID_def maxInstanceIDLength_def checkRunes_None)

theorem C1_validate_create_accepts_witness:
  "e_acute 32 \<noteq> [] \<and> length (e_acute 32) = 64
   \<and> list_all (allowed Latin1) (range_string (e_acute 32))
   \<and> validateInstanceID Latin1 (e_acute 32) True = None
   \<and> validateInstanceID Latin1 ''wf-123_A'' True = None"
proof -
  have n: "e_acute 32 \<noteq> []" by (simp add: e_acute_nonempty)
  have l: "length (e_acute 32) = 64" by (simp add: length_e_acute)
  have a: "list_all (allowed Latin1) (range_string (e_acute 32))"
    by (simp add: range_string_e_acute list_all_iff allowed_def Latin1_def)
  have b: "list_all (allowed Latin1) (range_string ''wf-123_A'')"
    by (simp add: range_string_def decoderune_def allowed_def Latin1_def)
  show ?thesis
    using n l a C1_validate_create_accepts [of "e_acute 32" Latin1]
      C1_validate_create_accepts [of "''wf-123_A''" Latin1, OF _ _ b]
    by simp
qed

text \<open>
  Claim C5: an instance id that exceeds the limit of 64 and has a character outside the
  allowed set fails create-mode validation with \<open>ErrInstanceIDTooLong\<close>
  (\<open>IdentifierTooLong\<close>), not with \<open>ErrInvalidInstanceID\<close>: the length is checked first.
  The limit is on the bytes of the id; an id of more than 64 characters has more than
  64 bytes, so the theorem covers both ways of counting.
\<close>

theorem C5_length_before_characters:
  assumes "64 < length instanceID \<or> 64 < length (range_string instanceID)"
    and "\<not> list_all (allowed U) (range_string instanceID)"
  shows "validateInstanceID U instanceID True = Some (APIError ErrInstanceIDTooLong [IntArg 64])
         \<and> kind ErrInstanceIDTooLong = IdentifierTooLong"
proof -
  have "64 < length instanceID"
    using assms(1) length_range_string [of instanceID] by auto
  then show ?thesis
    by (auto simp: validateInstanceID_def maxInstanceIDLength_def WithFormat_def)
qed

theorem C5_length_before_characters_witness:
  "64 < length (CHR ''#'' # replicate 64 CHR ''a'')
   \<and> \<not> list_all (allowed Latin1) (range_string (CHR ''#'' # replicate 64 CHR ''a''))
   \<and> validateInstanceID Latin1 (CHR ''#'' # replicate 64 CHR ''a'') True
       = Some (APIError ErrInstanceIDTooLong [IntArg 64])"
proof -
  have l: "64 < length (CHR ''#'' # replicate 64 CHR ''a'')" by simp
  have b: "\<not> list_all (allowed Latin1) (range_string (CHR ''#'' # replicate 64 CHR ''a''))"
    by (simp add: range_string_def decoderune_def allowed_def Latin1_def)
  show ?thesis
    using l b C5_length_before_characters [of "CHR ''#'' # replicate 64 CHR ''a''" Latin1]
    by simp
qed

text \<open>
  Claim C8: validation with \<open>isCreate = false\<close> fails with \<open>ErrMissingOrEmptyInstance\<close>
  (\<open>MissingIdentifier\<close>) exactly when the id is the empty string and accepts every other
  id, whatever its length and characters; create-mode validation fails with the same
  error on the empty id.
\<close>

theorem C8_validate_noncreate:
  "(validateInstanceID U instanceID False = Some (APIError ErrMissingOrEmptyInstance []))
     = (instanceID = [])
   \<and> (validateInstanceID U instanceID False = None) = (instanceID \<noteq> [])
   \<and> validateInstanceID U [] True = Some (APIError ErrMissingOrEmptyInstance [])
   \<and> kind ErrMissingOrEmptyInstance = MissingIdentifier"
  by (simp add: validateInstanceID_def)

theorem C8_validate_noncreate_witness:
  "validateInstanceID Latin1 (replicate 100 CHR ''a'') False = None
   \<and> validateInstanceID Latin1 ''wf#1'' False = None
   \<and> validateInstanceID Latin1 [] False = Some (APIError ErrMissingOrEmptyInstance [])"
  using C8_validate_noncreate [of Latin1 "replicate 100 CHR ''a''"]
    C8_validate_noncreate [of Latin1 "''wf#1''"]
    C8_validate_noncreate [of Latin1 "[]"]
  by simp

section \<open>The paths of the handlers\<close>

text \<open>An invalid instance id ends a handler at once, with the error of the validation.\<close>

lemma Get_invalid:
  "validateInstanceID U (InstanceId inp) False = Some err \<Longrightarrow>
   GetWorkflowBeta1 U a inp w
     = (Return (Some GetWorkflowResponse_zero) (Some err), Logger_Debug err w)"
  by (simp add: GetWorkflowBeta1_def)

lemma Start_invalid:
  "validateInstanceID U (InstanceId inp) True = Some err \<Longrightarrow>
   StartWorkflowBeta1 U a inp w
     = (Return (Some StartWorkflowResponse_zero) (Some err), Logger_Debug err w)"
  by (simp add: StartWorkflowBeta1_def)

lemma Terminate_invalid:
  "validateInstanceID U (InstanceId inp) False = Some err \<Longrightarrow>
   TerminateWorkflowBeta1 U a inp w = (Return (Some Empty) (Some err), Logger_Debug err w)"
  by (simp add: TerminateWorkflowBeta1_def)

lemma RaiseEvent_invalid:
  "validateInstanceID U (InstanceId inp) False = Some err \<Longrightarrow>
   RaiseEventWorkflowBeta1 U a inp w = (Return (Some Empty) (Some err), Logger_Debug err w)"
  by (simp add: RaiseEventWorkflowBeta1_def)

lemma Pause_invalid:
  "validateInstanceID U (InstanceId inp) False = Some err \<Longrightarrow>
   PauseWorkflowBeta1 U a inp w = (Return (Some Empty) (Some err), Logger_Debug err w)"
  by (simp add: PauseWorkflowBeta1_def)

lemma Resume_invalid:
  "validateInstanceID U (InstanceId inp) False = Some err \<Longrightarrow>
   ResumeWorkflowBeta1 U a inp w = (Return (Some Empty) (Some err), Logger_Debug err w)"
  by (simp add: ResumeWorkflowBeta1_def)

lemma Purge_invalid:
  "validateInstanceID U (InstanceId inp) False = Some err \<Longrightarrow>
   PurgeWorkflowBeta1 U a inp w = (Return (Some Empty) (Some err), Logger_Debug err w)"
  by (simp add: PurgeWorkflowBeta1_def)

text \<open>A missing workflow name or event name ends Start and RaiseEvent next.\<close>

lemma Start_no_name:
  "validateInstanceID U (InstanceId inp) True = None \<Longrightarrow> WorkflowName inp = [] \<Longrightarrow>
   StartWorkflowBeta1 U a inp w
     = (Return (Some StartWorkflowResponse_zero) (Some (APIError ErrWorkflowNameMissing [])),
        Logger_Debug (APIError ErrWorkflowNameMissing []) w)"
  by (simp add: StartWorkflowBeta1_def Let_def)

lemma RaiseEvent_no_name:
  "InstanceId inp \<noteq> [] \<Longrightarrow> EventName inp = [] \<Longrightarrow>
   RaiseEventWorkflowBeta1 U a inp w
     = (Return (Some Empty) (Some (APIError ErrMissingWorkflowEventName [])),
        Logger_Debug (APIError ErrMissingWorkflowEventName []) w)"
  by (simp add: RaiseEventWorkflowBeta1_def validate_noncreate Let_def)

text \<open>
  A component that does not resolve ends the handler with the error of the resolution;
  no method has been called and the state behind the components is as it was.
\<close>

lemma Get_unresolved:
  "InstanceId inp \<noteq> [] \<and>
   getWorkflowComponent a (WorkflowComponent inp) (WaitForActorsReady w) = (Inl err, w1) \<longrightarrow>
   GetWorkflowBeta1 U a inp w
     = (Return (Some GetWorkflowResponse_zero) (Some err), Logger_Debug err w1)
   \<and> calls (snd (GetWorkflowBeta1 U a inp w)) = calls w
   \<and> engine (snd (GetWorkflowBeta1 U a inp w)) = engine w"
  using resolve_Inl_world [of a "WorkflowComponent inp" "WaitForActorsReady w" err w1]
  by (simp add: GetWorkflowBeta1_def validate_noncreate world_simps)

lemma Start_unresolved:
  "validateInstanceID U (InstanceId inp) True = None \<and> WorkflowName inp \<noteq> [] \<and>
   getWorkflowComponent a (WorkflowComponent inp) (WaitForActorsReady w) = (Inl err, w1) \<longrightarrow>
   StartWorkflowBeta1 U a inp w
     = (Return (Some StartWorkflowResponse_zero) (Some err), Logger_Debug err w1)
   \<and> calls (snd (StartWorkflowBeta1 U a inp w)) = calls w
   \<and> engine (snd (StartWorkflowBeta1 U a inp w)) = engine w"
  using resolve_Inl_world [of a "WorkflowComponent inp" "WaitForActorsReady w" err w1]
  by (simp add: StartWorkflowBeta1_def world_simps)

lemma Terminate_unresolved:
  "InstanceId inp \<noteq> [] \<and>
   getWorkflowComponent a (WorkflowComponent inp) (WaitForActorsReady w) = (Inl err, w1) \<longrightarrow>
   TerminateWorkflowBeta1 U a inp w = (Return (Some Empty) (Some err), Logger_Debug err w1)
   \<and> calls (snd (TerminateWorkflowBeta1 U a inp w)) = calls w
   \<and> engine (snd (TerminateWorkflowBeta1 U a inp w)) = engine w"
  using resolve_Inl_world [of a "WorkflowComponent inp" "WaitForActorsReady w" err w1]
  by (simp add: TerminateWorkflowBeta1_def validate_noncreate world_simps)

lemma RaiseEvent_unresolved:
  "InstanceId inp \<noteq> [] \<and> EventName inp \<noteq> [] \<and>
   getWorkflowComponent a (WorkflowComponent inp) (WaitForActorsReady w) = (Inl err, w1) \<longrightarrow>
   RaiseEventWorkflowBeta1 U a inp w = (Return (Some Empty) (Some err), Logger_Debug err w1)
   \<and> calls (snd (RaiseEventWorkflowBeta1 U a inp w)) = calls w
   \<and> engine (snd (RaiseEventWorkflowBeta1 U a inp w)) = engine w"
  using resolve_Inl_world [of a "WorkflowComponent inp" "WaitForActorsReady w" err w1]
  by (simp add: RaiseEventWorkflowBeta1_def validate_noncreate world_simps)

lemma Pause_unresolved:
  "InstanceId inp \<noteq> [] \<and>
   getWorkflowComponent a (WorkflowComponent inp) (WaitForActorsReady w) = (Inl err, w1) \<longrightarrow>
   PauseWorkflowBeta1 U a inp w = (Return (Some Empty) (Some err), Logger_Debug err w1)
   \<and> calls (snd (PauseWorkflowBeta1 U a inp w)) = calls w
   \<and> engine (snd (PauseWorkflowBeta1 U a inp w)) = engine w"
  using resolve_Inl_world [of a "WorkflowComponent inp" "WaitForActorsReady w" err w1]
  by (simp add: PauseWorkflowBeta1_def validate_noncreate world_simps)

lemma Resume_unresolved:
  "InstanceId inp \<noteq> [] \<and>
   getWorkflowComponent a (WorkflowComponent inp) (WaitForActorsReady w) = (Inl err, w1) \<longrightarrow>
   ResumeWorkflowBeta1 U a inp w = (Return (Some Empty) (Some err), Logger_Debug err w1)
   \<and> calls (snd (ResumeWorkflowBeta1 U a inp w)) = calls w
   \<and> engine (snd (ResumeWorkflowBeta1 U a inp w)) = engine w"
  using resolve_Inl_world [of a "WorkflowComponent inp" "WaitForActorsReady w" err w1]
  by (simp add: ResumeWorkflowBeta1_def validate_noncreate world_simps)

lemma Purge_unresolved:
  "InstanceId inp \<noteq> [] \<and>
   getWorkflowComponent a (WorkflowComponent inp) (WaitForActorsReady w) = (Inl err, w1) \<longrightarrow>
   PurgeWorkflowBeta1 U a inp w = (Return (Some Empty) (Some err), Logger_Debug err w1)
   \<and> calls (snd (PurgeWorkflowBeta1 U a inp w)) = calls w
   \<and> engine (snd (PurgeWorkflowBeta1 U a inp w)) = engine w"
  using resolve_Inl_world [of a "WorkflowComponent inp" "WaitForActorsReady w" err w1]
  by (simp add: PurgeWorkflowBeta1_def validate_noncreate world_simps)

text \<open>
  An error of the component's method ends the handler with the error made from it.
  Get, Terminate and Purge ask \<open>errors.Is\<close> first; the other four do not.
\<close>

lemma Get_engine_error:
  "InstanceId inp \<noteq> [] \<Longrightarrow> WorkflowComponent inp \<noteq> [] \<Longrightarrow>
   CompStore a (WorkflowComponent inp) = Some c \<Longrightarrow>
   snd (fst (Get c (GetRequest (InstanceId inp)) (engine w))) = Some e \<Longrightarrow>
   fst (GetWorkflowBeta1 U a inp w) =
     Return (Some GetWorkflowResponse_zero)
       (Some (APIError
                (if errors_Is_ErrInstanceNotFound e then ErrWorkflowInstanceNotFound
                 else ErrWorkflowGetResponse)
                [StrArg (InstanceId inp), ErrArg e]))"
  by (auto simp: GetWorkflowBeta1_def validate_noncreate resolve_known world_simps invoke_def
        WithFormat_def Let_def split: prod.splits)

lemma Start_engine_error:
  "validateInstanceID U (InstanceId inp) True = None \<Longrightarrow> WorkflowName inp \<noteq> [] \<Longrightarrow>
   WorkflowComponent inp \<noteq> [] \<Longrightarrow> CompStore a (WorkflowComponent inp) = Some c \<Longrightarrow>
   snd (fst (Start c
              (StartRequest (InstanceId inp) (Options inp) (WorkflowName inp) (Input inp))
              (engine w))) = Some e \<Longrightarrow>
   fst (StartWorkflowBeta1 U a inp w) =
     Return (Some StartWorkflowResponse_zero)
       (Some (APIError ErrStartWorkflow [StrArg (WorkflowName inp), ErrArg e]))"
  by (auto simp: StartWorkflowBeta1_def resolve_known world_simps invoke_def WithFormat_def
        Let_def split: prod.splits)

lemma Terminate_engine_error:
  "InstanceId inp \<noteq> [] \<Longrightarrow> WorkflowComponent inp \<noteq> [] \<Longrightarrow>
   CompStore a (WorkflowComponent inp) = Some c \<Longrightarrow>
   fst (Terminate c (TerminateRequest (InstanceId inp)) (engine w)) = Some e \<Longrightarrow>
   fst (TerminateWorkflowBeta1 U a inp w) =
     Return (Some Empty)
       (Some (APIError
                (if errors_Is_ErrInstanceNotFound e then ErrWorkflowInstanceNotFound
                 else ErrTerminateWorkflow)
                [StrArg (InstanceId inp), ErrArg e]))"
  by (auto simp: TerminateWorkflowBeta1_def validate_noncreate resolve_known world_simps
        invoke_def WithFormat_def Let_def split: prod.splits)

lemma RaiseEvent_engine_error:
  "InstanceId inp \<noteq> [] \<Longrightarrow> EventName inp \<noteq> [] \<Longrightarrow> WorkflowComponent inp \<noteq> [] \<Longrightarrow>
   CompStore a (WorkflowComponent inp) = Some c \<Longrightarrow>
   fst (RaiseEvent c (RaiseEventRequest (InstanceId inp) (EventName inp) (EventData inp))
         (engine w)) = Some e \<Longrightarrow>
   fst (RaiseEventWorkflowBeta1 U a inp w) =
     Return (Some Empty)
       (Some (APIError ErrRaiseEventWorkflow [StrArg (InstanceId inp), ErrArg e]))"
  by (auto simp: RaiseEventWorkflowBeta1_def validate_noncreate resolve_known world_simps
        invoke_def WithFormat_def Let_def split: prod.splits)

lemma Pause_engine_error:
  "InstanceId inp \<noteq> [] \<Longrightarrow> WorkflowComponent inp \<noteq> [] \<Longrightarrow>
   CompStore a (WorkflowComponent inp) = Some c \<Longrightarrow>
   fst (Pause c (PauseRequest (InstanceId inp)) (engine w)) = Some e \<Longrightarrow>
   fst (PauseWorkflowBeta1 U a inp w) =
     Return (Some Empty)
       (Some (APIError ErrPauseWorkflow [StrArg (InstanceId inp), ErrArg e]))"
  by (auto simp: PauseWorkflowBeta1_def validate_noncreate resolve_known world_simps
        invoke_def WithFormat_def Let_def split: prod.splits)

lemma Resume_engine_error:
  "InstanceId inp \<noteq> [] \<Longrightarrow> WorkflowComponent inp \<noteq> [] \<Longrightarrow>
   CompStore a (WorkflowComponent inp) = Some c \<Longrightarrow>
   fst (Resume c (ResumeRequest (InstanceId inp)) (engine w)) = Some e \<Longrightarrow>
   fst (ResumeWorkflowBeta1 U a inp w) =
     Return (Some Empty)
       (Some (APIError ErrResumeWorkflow [StrArg (InstanceId inp), ErrArg e]))"
  by (auto simp: ResumeWorkflowBeta1_def validate_noncreate resolve_known world_simps
        invoke_def WithFormat_def Let_def split: prod.splits)

lemma Purge_engine_error:
  "InstanceId inp \<noteq> [] \<Longrightarrow> WorkflowComponent inp \<noteq> [] \<Longrightarrow>
   CompStore a (WorkflowComponent inp) = Some c \<Longrightarrow>
   fst (Purge c (PurgeRequest (InstanceId inp)) (engine w)) = Some e \<Longrightarrow>
   fst (PurgeWorkflowBeta1 U a inp w) =
     Return (Some Empty)
       (Some (APIError
                (if errors_Is_ErrInstanceNotFound e then ErrWorkflowInstanceNotFound
                 else ErrPurgeWorkflow)
                [StrArg (InstanceId inp), ErrArg e]))"
  by (auto simp: PurgeWorkflowBeta1_def validate_noncreate resolve_known world_simps
        invoke_def WithFormat_def Let_def split: prod.splits)

text \<open>What a handler gives back has the shape of \<open>failure_shape\<close>, on every path.\<close>

lemma Get_shape: "failure_shape GetWorkflowResponse_zero (fst (GetWorkflowBeta1 U a inp w))"
  by (simp add: GetWorkflowBeta1_def failure_shape_def Let_def
      split: option.split sum.split prod.split StateResponse.split WorkflowState.split)

lemma Start_shape:
  "failure_shape StartWorkflowResponse_zero (fst (StartWorkflowBeta1 U a inp w))"
  by (simp add: StartWorkflowBeta1_def failure_shape_def Let_def
      split: option.split sum.split prod.split StartResponse.split)

lemma Terminate_shape: "failure_shape Empty (fst (TerminateWorkflowBeta1 U a inp w))"
  by (simp add: TerminateWorkflowBeta1_def failure_shape_def Let_def
      split: option.split sum.split prod.split)

lemma RaiseEvent_shape: "failure_shape Empty (fst (RaiseEventWorkflowBeta1 U a inp w))"
  by (simp add: RaiseEventWorkflowBeta1_def failure_shape_def Let_def
      split: option.split sum.split prod.split)

lemma Pause_shape: "failure_shape Empty (fst (PauseWorkflowBeta1 U a inp w))"
  by (simp add: PauseWorkflowBeta1_def failure_shape_def Let_def
      split: option.split sum.split prod.split)

lemma Resume_shape: "failure_shape Empty (fst (ResumeWorkflowBeta1 U a inp w))"
  by (simp add: ResumeWorkflowBeta1_def failure_shape_def Let_def
      split: option.split sum.split prod.split)

lemma Purge_shape: "failure_shape Empty (fst (PurgeWorkflowBeta1 U a inp w))"
  by (simp add: PurgeWorkflowBeta1_def failure_shape_def Let_def
      split: option.split sum.split prod.split)

text \<open>
  A handler that returns no error has passed every step: the validation, the required
  name, the resolution of the component, and the call of its method.
\<close>

lemma Get_no_error:
  "returned_error (fst (GetWorkflowBeta1 U a inp w)) = None \<longrightarrow>
   validateInstanceID U (InstanceId inp) False = None \<and>
   resolved_and_ok a (WorkflowComponent inp)
     (\<lambda>c. snd (fst (Get c (GetRequest (InstanceId inp)) (engine w))))"
  by (auto simp: GetWorkflowBeta1_def resolved_and_ok_def run_defs
      split: option.splits sum.splits prod.splits if_splits)

lemma Start_no_error:
  "returned_error (fst (StartWorkflowBeta1 U a inp w)) = None \<longrightarrow>
   validateInstanceID U (InstanceId inp) True = None \<and> WorkflowName inp \<noteq> [] \<and>
   resolved_and_ok a (WorkflowComponent inp)
     (\<lambda>c. snd (fst (Start c
             (StartRequest (InstanceId inp) (Options inp) (WorkflowName inp) (Input inp))
             (engine w))))"
  by (auto simp: StartWorkflowBeta1_def resolved_and_ok_def run_defs
      split: option.splits sum.splits prod.splits if_splits)

lemma Terminate_no_error:
  "returned_error (fst (TerminateWorkflowBeta1 U a inp w)) = None \<longrightarrow>
   validateInstanceID U (InstanceId inp) False = None \<and>
   resolved_and_ok a (WorkflowComponent inp)
     (\<lambda>c. fst (Terminate c (TerminateRequest (InstanceId inp)) (engine w)))"
  by (auto simp: TerminateWorkflowBeta1_def resolved_and_ok_def run_defs
      split: option.splits sum.splits prod.splits if_splits)

lemma RaiseEvent_no_error:
  "returned_error (fst (RaiseEventWorkflowBeta1 U a inp w)) = None \<longrightarrow>
   validateInstanceID U (InstanceId inp) False = None \<and> EventName inp \<noteq> [] \<and>
   resolved_and_ok a (WorkflowComponent inp)
     (\<lambda>c. fst (RaiseEvent c
             (RaiseEventRequest (InstanceId inp) (EventName inp) (EventData inp)) (engine w)))"
  by (auto simp: RaiseEventWorkflowBeta1_def resolved_and_ok_def run_defs
      split: option.splits sum.splits prod.splits if_splits)

lemma Pause_no_error:
  "returned_error (fst (PauseWorkflowBeta1 U a inp w)) = None \<longrightarrow>
   validateInstanceID U (InstanceId inp) False = None \<and>
   resolved_and_ok a (WorkflowComponent inp)
     (\<lambda>c. fst (Pause c (PauseRequest (InstanceId inp)) (engine w)))"
  by (auto simp: PauseWorkflowBeta1_def resolved_and_ok_def run_defs
      split: option.splits sum.splits prod.splits if_splits)

lemma Resume_no_error:
  "returned_error (fst (ResumeWorkflowBeta1 U a inp w)) = None \<longrightarrow>
   validateInstanceID U (InstanceId inp) False = None \<and>
   resolved_and_ok a (WorkflowComponent inp)
     (\<lambda>c. fst (Resume c (ResumeRequest (InstanceId inp)) (engine w)))"
  by (auto simp: ResumeWorkflowBeta1_def resolved_and_ok_def run_defs
      split: option.splits sum.splits prod.splits if_splits)

lemma Purge_no_error:
  "returned_error (fst (PurgeWorkflowBeta1 U a inp w)) = None \<longrightarrow>
   validateInstanceID U (InstanceId inp) False = None \<and>
   resolved_and_ok a (WorkflowComponent inp)
     (\<lambda>c. fst (Purge c (PurgeRequest (InstanceId inp)) (engine w)))"
  by (auto simp: PurgeWorkflowBeta1_def resolved_and_ok_def run_defs
      split: option.splits sum.splits prod.splits if_splits)

lemmas eval_defs = validateInstanceID_def maxInstanceIDLength_def range_string_def
  decoderune_def Latin1_def request_def start_request_def event_request_def api_def
  stub_def w0_def run_defs fails_def

section \<open>The two vintages\<close>

text \<open>
  Claim C3: for each of the seven operations and for every input, the Alpha1 handler
  gives the same response, the same error and the same effects as the Beta1 handler.
\<close>

theorem C3_alpha1_is_beta1:
  "GetWorkflowAlpha1 U a inp w = GetWorkflowBeta1 U a inp w
   \<and> StartWorkflowAlpha1 U a inpS w = StartWorkflowBeta1 U a inpS w
   \<and> TerminateWorkflowAlpha1 U a inp w = TerminateWorkflowBeta1 U a inp w
   \<and> RaiseEventWorkflowAlpha1 U a inpR w = RaiseEventWorkflowBeta1 U a inpR w
   \<and> PauseWorkflowAlpha1 U a inp w = PauseWorkflowBeta1 U a inp w
   \<and> ResumeWorkflowAlpha1 U a inp w = ResumeWorkflowBeta1 U a inp w
   \<and> PurgeWorkflowAlpha1 U a inp w = PurgeWorkflowBeta1 U a inp w"
  by (simp add: GetWorkflowAlpha1_def StartWorkflowAlpha1_def TerminateWorkflowAlpha1_def
        RaiseEventWorkflowAlpha1_def PauseWorkflowAlpha1_def ResumeWorkflowAlpha1_def
        PurgeWorkflowAlpha1_def)

theorem C3_alpha1_is_beta1_witness:
  "GetWorkflowAlpha1 Latin1 (api None) (request ''wf-1'' ''redis'') w0
     = GetWorkflowBeta1 Latin1 (api None) (request ''wf-1'' ''redis'') w0
   \<and> fst (GetWorkflowAlpha1 Latin1 (api None) (request ''wf-1'' ''redis'') w0)
       = Return (Some (GetWorkflowResponse ''wf-1'' ''order''
                         (Some \<lparr> Seconds = 0, Nanos = 0 \<rparr>)
                         (Some \<lparr> Seconds = 0, Nanos = 0 \<rparr>) ''RUNNING'' Map.empty))
           None
   \<and> fst (PauseWorkflowAlpha1 Latin1 (api (Some (EngineFailure ''boom'')))
            (request ''wf-1'' ''redis'') w0)
       = Return (Some Empty)
           (Some (APIError ErrPauseWorkflow [StrArg ''wf-1'', ErrArg (EngineFailure ''boom'')]))"
  using C3_alpha1_is_beta1 [where U = Latin1 and a = "api None" and w = w0
      and inp = "request ''wf-1'' ''redis''"]
    C3_alpha1_is_beta1 [where U = Latin1 and a = "api (Some (EngineFailure ''boom''))"
      and w = w0 and inp = "request ''wf-1'' ''redis''"]
  by (simp add: GetWorkflowBeta1_def PauseWorkflowBeta1_def eval_defs timestamppb_New_def
        epoch_def)

section \<open>Errors of the component\<close>

text \<open>
  Claim C2, as stated, at a concrete request: Start of workflow \<open>order\<close> under the
  instance id \<open>wf-1\<close>, on a component whose Start fails. The error returned is an
  \<open>OperationFailed\<close> condition, \<open>ErrStartWorkflow\<close>, but it was formatted with the
  workflow name and the engine error: the instance id is not among its arguments.
\<close>

theorem C2_instance_id_counterexample:
  "snd (fst (Start (stub (Some (EngineFailure ''boom'')))
               (StartRequest ''wf-1'' Map.empty ''order'' []) (engine w0)))
     = Some (EngineFailure ''boom'')
   \<and> fails (StartWorkflowBeta1 Latin1 (api (Some (EngineFailure ''boom'')))
              (start_request ''wf-1'' ''redis'' ''order'') w0)
        StartWorkflowResponse_zero OperationFailed
        (APIError ErrStartWorkflow [StrArg ''order'', ErrArg (EngineFailure ''boom'')])
   \<and> \<not> carries (APIError ErrStartWorkflow [StrArg ''order'', ErrArg (EngineFailure ''boom'')])
          (StrArg ''wf-1'')"
  by (simp add: StartWorkflowBeta1_def eval_defs carries_def)

text \<open>
  Claim C2, amended: whenever the engine call of Start fails, with any engine error (the
  not-found sentinel included), the handler returns the zero response and the
  \<open>OperationFailed\<close> condition \<open>ErrStartWorkflow\<close>, the constant of the Start operation,
  whose detail carries the workflow-type name of the request and the wrapped engine
  error; the instance id is carried only when it equals the workflow name.
\<close>

theorem C2_start_engine_failure:
  assumes "validateInstanceID U (InstanceId inp) True = None"
    and "WorkflowName inp \<noteq> []"
    and "WorkflowComponent inp \<noteq> []"
    and "CompStore a (WorkflowComponent inp) = Some c"
    and "snd (fst (Start c
                (StartRequest (InstanceId inp) (Options inp) (WorkflowName inp) (Input inp))
                (engine w))) = Some e"
  shows "fails (StartWorkflowBeta1 U a inp w) StartWorkflowResponse_zero OperationFailed
           (APIError ErrStartWorkflow [StrArg (WorkflowName inp), ErrArg e])
         \<and> carries (APIError ErrStartWorkflow [StrArg (WorkflowName inp), ErrArg e])
             (StrArg (WorkflowName inp))
         \<and> carries (APIError ErrStartWorkflow [StrArg (WorkflowName inp), ErrArg e]) (ErrArg e)
         \<and> carries (APIError ErrStartWorkflow [StrArg (WorkflowName inp), ErrArg e])
             (StrArg (InstanceId inp)) = (InstanceId inp = WorkflowName inp)"
  using Start_engine_error [OF assms] by (auto simp: fails_def carries_def)

theorem C2_start_engine_failure_witness:
  "fails (StartWorkflowBeta1 Latin1 (api (Some ErrInstanceNotFound))
            (start_request ''wf-1'' ''redis'' ''order'') w0)
     StartWorkflowResponse_zero OperationFailed
     (APIError ErrStartWorkflow [StrArg ''order'', ErrArg ErrInstanceNotFound])"
  using C2_start_engine_failure [of Latin1 "start_request ''wf-1'' ''redis'' ''order''"
      "api (Some ErrInstanceNotFound)" "stub (Some ErrInstanceNotFound)" w0 ErrInstanceNotFound]
  by (simp add: eval_defs)

text \<open>
  Claim C4: when the method of the component returns an error that is the
  instance-not-found sentinel (\<open>errors.Is\<close> holds of it), Get, Terminate and Purge return
  \<open>ErrWorkflowInstanceNotFound\<close>, the \<open>InstanceNotFound\<close> condition, carrying the instance
  id and the wrapped engine error; Start, RaiseEvent, Pause and Resume return their own
  \<open>OperationFailed\<close> condition for the same error, never \<open>InstanceNotFound\<close>.
\<close>

theorem C4_instance_not_found:
  assumes "errors_Is_ErrInstanceNotFound e"
    and "InstanceId inp \<noteq> []" and "WorkflowComponent inp \<noteq> []"
    and "CompStore a (WorkflowComponent inp) = Some c"
    and "validateInstanceID U (InstanceId inpS) True = None" and "WorkflowName inpS \<noteq> []"
    and "WorkflowComponent inpS \<noteq> []" and "CompStore a (WorkflowComponent inpS) = Some cS"
    and "InstanceId inpR \<noteq> []" and "EventName inpR \<noteq> []"
    and "WorkflowComponent inpR \<noteq> []" and "CompStore a (WorkflowComponent inpR) = Some cR"
  shows
   "(snd (fst (Get c (GetRequest (InstanceId inp)) (engine w))) = Some e \<longrightarrow>
       fails (GetWorkflowBeta1 U a inp w) GetWorkflowResponse_zero InstanceNotFound
         (APIError ErrWorkflowInstanceNotFound [StrArg (InstanceId inp), ErrArg e]))
    \<and> (fst (Terminate c (TerminateRequest (InstanceId inp)) (engine w)) = Some e \<longrightarrow>
       fails (TerminateWorkflowBeta1 U a inp w) Empty InstanceNotFound
         (APIError ErrWorkflowInstanceNotFound [StrArg (InstanceId inp), ErrArg e]))
    \<and> (fst (Purge c (PurgeRequest (InstanceId inp)) (engine w)) = Some e \<longrightarrow>
       fails (PurgeWorkflowBeta1 U a inp w) Empty InstanceNotFound
         (APIError ErrWorkflowInstanceNotFound [StrArg (InstanceId inp), ErrArg e]))
    \<and> (snd (fst (Start cS
                (StartRequest (InstanceId inpS) (Options inpS) (WorkflowName inpS) (Input inpS))
                (engine w))) = Some e \<longrightarrow>
       fails (StartWorkflowBeta1 U a inpS w) StartWorkflowResponse_zero OperationFailed
         (APIError ErrStartWorkflow [StrArg (WorkflowName inpS), ErrArg e]))
    \<and> (fst (RaiseEvent cR
             (RaiseEventRequest (InstanceId inpR) (EventName inpR) (EventData inpR))
             (engine w)) = Some e \<longrightarrow>
       fails (RaiseEventWorkflowBeta1 U a inpR w) Empty OperationFailed
         (APIError ErrRaiseEventWorkflow [StrArg (InstanceId inpR), ErrArg e]))
    \<and> (fst (Pause c (PauseRequest (InstanceId inp)) (engine w)) = Some e \<longrightarrow>
       fails (PauseWorkflowBeta1 U a inp w) Empty OperationFailed
         (APIError ErrPauseWorkflow [StrArg (InstanceId inp), ErrArg e]))
    \<and> (fst (Resume c (ResumeRequest (InstanceId inp)) (engine w)) = Some e \<longrightarrow>
       fails (ResumeWorkflowBeta1 U a inp w) Empty OperationFailed
         (APIError ErrResumeWorkflow [StrArg (InstanceId inp), ErrArg e]))"
proof (intro conjI impI)
  assume "snd (fst (Get c (GetRequest (InstanceId inp)) (engine w))) = Some e"
  then show "fails (GetWorkflowBeta1 U a inp w) GetWorkflowResponse_zero InstanceNotFound
         (APIError ErrWorkflowInstanceNotFound [StrArg (InstanceId inp), ErrArg e])"
    using assms(1-4) Get_engine_error [of inp a c w e U] by (simp add: fails_def)
next
  assume "fst (Terminate c (TerminateRequest (InstanceId inp)) (engine w)) = Some e"
  then show "fails (TerminateWorkflowBeta1 U a inp w) Empty InstanceNotFound
         (APIError ErrWorkflowInstanceNotFound [StrArg (InstanceId inp), ErrArg e])"
    using assms(1-4) Terminate_engine_error [of inp a c w e U] by (simp add: fails_def)
next
  assume "fst (Purge c (PurgeRequest (InstanceId inp)) (engine w)) = Some e"
  then show "fails (PurgeWorkflowBeta1 U a inp w) Empty InstanceNotFound
         (APIError ErrWorkflowInstanceNotFound [StrArg (InstanceId inp), ErrArg e])"
    using assms(1-4) Purge_engine_error [of inp a c w e U] by (simp add: fails_def)
next
  assume "snd (fst (Start cS
                (StartRequest (InstanceId inpS) (Options inpS) (WorkflowName inpS) (Input inpS))
                (engine w))) = Some e"
  then show "fails (StartWorkflowBeta1 U a inpS w) StartWorkflowResponse_zero OperationFailed
         (APIError ErrStartWorkflow [StrArg (WorkflowName inpS), ErrArg e])"
    using assms(5-8) Start_engine_error [of U inpS a cS w e] by (simp add: fails_def)
next
  assume "fst (RaiseEvent cR
             (RaiseEventRequest (InstanceId inpR) (EventName inpR) (EventData inpR))
             (engine w)) = Some e"
  then show "fails (RaiseEventWorkflowBeta1 U a inpR w) Empty OperationFailed
         (APIError ErrRaiseEventWorkflow [StrArg (InstanceId inpR), ErrArg e])"
    using assms(9-12) RaiseEvent_engine_error [of inpR a cR w e U] by (simp add: fails_def)
next
  assume "fst (Pause c (PauseRequest (InstanceId inp)) (engine w)) = Some e"
  then show "fails (PauseWorkflowBeta1 U a inp w) Empty OperationFailed
         (APIError ErrPauseWorkflow [StrArg (InstanceId inp), ErrArg e])"
    using assms(2-4) Pause_engine_error [of inp a c w e U] by (simp add: fails_def)
next
  assume "fst (Resume c (ResumeRequest (InstanceId inp)) (engine w)) = Some e"
  then show "fails (ResumeWorkflowBeta1 U a inp w) Empty OperationFailed
         (APIError ErrResumeWorkflow [StrArg (InstanceId inp), ErrArg e])"
    using assms(2-4) Resume_engine_error [of inp a c w e U] by (simp add: fails_def)
qed

theorem C4_instance_not_found_witness:
  "errors_Is_ErrInstanceNotFound (Wrap ''get'' ErrInstanceNotFound)
   \<and> fails (GetWorkflowBeta1 Latin1 (api (Some (Wrap ''get'' ErrInstanceNotFound)))
              (request ''wf-1'' ''redis'') w0)
        GetWorkflowResponse_zero InstanceNotFound
        (APIError ErrWorkflowInstanceNotFound
           [StrArg ''wf-1'', ErrArg (Wrap ''get'' ErrInstanceNotFound)])
   \<and> fails (TerminateWorkflowBeta1 Latin1 (api (Some (Wrap ''get'' ErrInstanceNotFound)))
              (request ''wf-1'' ''redis'') w0)
        Empty InstanceNotFound
        (APIError ErrWorkflowInstanceNotFound
           [StrArg ''wf-1'', ErrArg (Wrap ''get'' ErrInstanceNotFound)])
   \<and> fails (PurgeWorkflowBeta1 Latin1 (api (Some (Wrap ''get'' ErrInstanceNotFound)))
              (request ''wf-1'' ''redis'') w0)
        Empty InstanceNotFound
        (APIError ErrWorkflowInstanceNotFound
           [StrArg ''wf-1'', ErrArg (Wrap ''get'' ErrInstanceNotFound)])
   \<and> fails (StartWorkflowBeta1 Latin1 (api (Some (Wrap ''get'' ErrInstanceNotFound)))
              (start_request ''wf-1'' ''redis'' ''order'') w0)
        StartWorkflowResponse_zero OperationFailed
        (APIError ErrStartWorkflow
           [StrArg ''order'', ErrArg (Wrap ''get'' ErrInstanceNotFound)])
   \<and> fails (RaiseEventWorkflowBeta1 Latin1 (api (Some (Wrap ''get'' ErrInstanceNotFound)))
              (event_request ''wf-1'' ''redis'' ''paid'') w0)
        Empty OperationFailed
        (APIError ErrRaiseEventWorkflow
           [StrArg ''wf-1'', ErrArg (Wrap ''get'' ErrInstanceNotFound)])
   \<and> fails (PauseWorkflowBeta1 Latin1 (api (Some (Wrap ''get'' ErrInstanceNotFound)))
              (request ''wf-1'' ''redis'') w0)
        Empty OperationFailed
        (APIError ErrPauseWorkflow
           [StrArg ''wf-1'', ErrArg (Wrap ''get'' ErrInstanceNotFound)])
   \<and> fails (ResumeWorkflowBeta1 Latin1 (api (Some (Wrap ''get'' ErrInstanceNotFound)))
              (request ''wf-1'' ''redis'') w0)
        Empty OperationFailed
        (APIError ErrResumeWorkflow
           [StrArg ''wf-1'', ErrArg (Wrap ''get'' ErrInstanceNotFound)])"
  using C4_instance_not_found [of "Wrap ''get'' ErrInstanceNotFound"
      "request ''wf-1'' ''redis''" "api (Some (Wrap ''get'' ErrInstanceNotFound))"
      "stub (Some (Wrap ''get'' ErrInstanceNotFound))" Latin1
      "start_request ''wf-1'' ''redis'' ''order''"
      "stub (Some (Wrap ''get'' ErrInstanceNotFound))"
      "event_request ''wf-1'' ''redis'' ''paid''"
      "stub (Some (Wrap ''get'' ErrInstanceNotFound))" w0]
  by (simp add: validateInstanceID_def maxInstanceIDLength_def range_string_def
        decoderune_def Latin1_def request_def start_request_def event_request_def api_def
        stub_def w0_def)

section \<open>Checks before the call\<close>

text \<open>
  Claim C6: Start with a valid instance id and an empty workflow name fails with
  \<open>ErrWorkflowNameMissing\<close> (\<open>MissingWorkflowName\<close>), whatever the component name and
  the registry: the run only logs the error, so no component is looked up, no method is
  called, and the state behind the components is unchanged.
\<close>

theorem C6_missing_workflow_name:
  assumes "validateInstanceID U (InstanceId inp) True = None"
    and "WorkflowName inp = []"
  shows "fails (StartWorkflowBeta1 U a inp w) StartWorkflowResponse_zero MissingWorkflowName
           (APIError ErrWorkflowNameMissing [])
         \<and> snd (StartWorkflowBeta1 U a inp w) = Logger_Debug (APIError ErrWorkflowNameMissing []) w
         \<and> calls (snd (StartWorkflowBeta1 U a inp w)) = calls w
         \<and> engine (snd (StartWorkflowBeta1 U a inp w)) = engine w
         \<and> StartWorkflowBeta1 U a' (inp\<lparr> WorkflowComponent := name \<rparr>) w
             = StartWorkflowBeta1 U a inp w"
  using assms Start_no_name [of U inp a w]
    Start_no_name [of U "inp\<lparr> WorkflowComponent := name \<rparr>" a' w]
  by (simp add: fails_def world_simps)

theorem C6_missing_workflow_name_witness:
  "validateInstanceID Latin1 ''wf-1'' True = None
   \<and> StartWorkflowBeta1 Latin1 (api None) (start_request ''wf-1'' ''redis'' []) w0
       = (Return (Some StartWorkflowResponse_zero) (Some (APIError ErrWorkflowNameMissing [])),
          \<lparr> engine = 0, trace = [Debug (APIError ErrWorkflowNameMissing [])] \<rparr>)
   \<and> StartWorkflowBeta1 Latin1 (api None) (start_request ''wf-1'' ''kafka'' []) w0
       = StartWorkflowBeta1 Latin1 (api None) (start_request ''wf-1'' ''redis'' []) w0"
proof -
  have v: "validateInstanceID Latin1 (InstanceId (start_request ''wf-1'' ''redis'' [])) True = None"
    by (simp add: eval_defs)
  have n: "WorkflowName (start_request ''wf-1'' ''redis'' []) = []"
    by (simp add: start_request_def)
  have k: "(start_request ''wf-1'' ''redis'' [])\<lparr> WorkflowComponent := ''kafka'' \<rparr>
             = start_request ''wf-1'' ''kafka'' []"
    by (simp add: start_request_def)
  show ?thesis
    using v C6_missing_workflow_name [OF v n, of "api None" w0 "api None" "''kafka''"]
    by (simp add: k fails_def prod_eq_iff start_request_def Logger_Debug_def w0_def)
qed

text \<open>
  Claim C7: resolving the empty component name fails with
  \<open>ErrNoOrMissingWorkflowComponent\<close> (\<open>MissingComponentName\<close>), and resolving a non-empty
  name that is not registered fails with \<open>ErrWorkflowComponentDoesNotExist\<close>
  (\<open>UnknownComponent\<close>) carrying the name; the resolution itself calls no method. When
  the resolution fails, each of the seven handlers returns that error at once with the
  zero response: no method of a component has been called and the state behind the
  components is as before.
\<close>

theorem C7_component_resolution:
  "fst (getWorkflowComponent a [] w) = Inl (APIError ErrNoOrMissingWorkflowComponent [])
   \<and> kind ErrNoOrMissingWorkflowComponent = MissingComponentName
   \<and> (name \<noteq> [] \<and> CompStore a name = None \<longrightarrow>
        fst (getWorkflowComponent a name w)
          = Inl (APIError ErrWorkflowComponentDoesNotExist [StrArg name]))
   \<and> kind ErrWorkflowComponentDoesNotExist = UnknownComponent
   \<and> (calls (snd (getWorkflowComponent a name w)) = calls w
      \<and> engine (snd (getWorkflowComponent a name w)) = engine w)
   \<and> (InstanceId inp \<noteq> [] \<and>
      getWorkflowComponent a (WorkflowComponent inp) (WaitForActorsReady w) = (Inl err, w1) \<longrightarrow>
        GetWorkflowBeta1 U a inp w
          = (Return (Some GetWorkflowResponse_zero) (Some err), Logger_Debug err w1)
        \<and> calls (snd (GetWorkflowBeta1 U a inp w)) = calls w
        \<and> engine (snd (GetWorkflowBeta1 U a inp w)) = engine w)
   \<and> (validateInstanceID U (InstanceId inpS) True = None \<and> WorkflowName inpS \<noteq> [] \<and>
      getWorkflowComponent a (WorkflowComponent inpS) (WaitForActorsReady w) = (Inl err, w1) \<longrightarrow>
        StartWorkflowBeta1 U a inpS w
          = (Return (Some StartWorkflowResponse_zero) (Some err), Logger_Debug err w1)
        \<and> calls (snd (StartWorkflowBeta1 U a inpS w)) = calls w
        \<and> engine (snd (StartWorkflowBeta1 U a inpS w)) = engine w)
   \<and> (InstanceId inp \<noteq> [] \<and>
      getWorkflowComponent a (WorkflowComponent inp) (WaitForActorsReady w) = (Inl err, w1) \<longrightarrow>
        TerminateWorkflowBeta1 U a inp w = (Return (Some Empty) (Some err), Logger_Debug err w1)
        \<and> calls (snd (TerminateWorkflowBeta1 U a inp w)) = calls w
        \<and> engine (snd (TerminateWorkflowBeta1 U a inp w)) = engine w)
   \<and> (InstanceId inpR \<noteq> [] \<and> EventName inpR \<noteq> [] \<and>
      getWorkflowComponent a (WorkflowComponent inpR) (WaitForActorsReady w) = (Inl err, w1) \<longrightarrow>
        RaiseEventWorkflowBeta1 U a inpR w = (Return (Some Empty) (Some err), Logger_Debug err w1)
        \<and> calls (snd (RaiseEventWorkflowBeta1 U a inpR w)) = calls w
        \<and> engine (snd (RaiseEventWorkflowBeta1 U a inpR w)) = engine w)
   \<and> (InstanceId inp \<noteq> [] \<and>
      getWorkflowComponent a (WorkflowComponent inp) (WaitForActorsReady w) = (Inl err, w1) \<longrightarrow>
        PauseWorkflowBeta1 U a inp w = (Return (Some Empty) (Some err), Logger_Debug err w1)
        \<and> calls (snd (PauseWorkflowBeta1 U a inp w)) = calls w
        \<and> engine (snd (PauseWorkflowBeta1 U a inp w)) = engine w)
   \<and> (InstanceId inp \<noteq> [] \<and>
      getWorkflowComponent a (WorkflowComponent inp) (WaitForActorsReady w) = (Inl err, w1) \<longrightarrow>
        ResumeWorkflowBeta1 U a inp w = (Return (Some Empty) (Some err), Logger_Debug err w1)
        \<and> calls (snd (ResumeWorkflowBeta1 U a inp w)) = calls w
        \<and> engine (snd (ResumeWorkflowBeta1 U a inp w)) = engine w)
   \<and> (InstanceId inp \<noteq> [] \<and>
      getWorkflowComponent a (WorkflowComponent inp) (WaitForActorsReady w) = (Inl err, w1) \<longrightarrow>
        PurgeWorkflowBeta1 U a inp w = (Return (Some Empty) (Some err), Logger_Debug err w1)
        \<and> calls (snd (PurgeWorkflowBeta1 U a inp w)) = calls w
        \<and> engine (snd (PurgeWorkflowBeta1 U a inp w)) = engine w)"
  by (intro conjI;
      (rule Get_unresolved Start_unresolved Terminate_unresolved RaiseEvent_unresolved
            Pause_unresolved Resume_unresolved Purge_unresolved
       | simp add: resolve_empty resolve_unknown resolve_world))

theorem C7_component_resolution_witness:
  "fst (getWorkflowComponent (api None) [] w0) = Inl (APIError ErrNoOrMissingWorkflowComponent [])
   \<and> fst (getWorkflowComponent (api None) ''kafka'' w0)
       = Inl (APIError ErrWorkflowComponentDoesNotExist [StrArg ''kafka''])
   \<and> fst (GetWorkflowBeta1 Latin1 (api None) (request ''wf-1'' ''kafka'') w0)
       = Return (Some GetWorkflowResponse_zero)
           (Some (APIError ErrWorkflowComponentDoesNotExist [StrArg ''kafka'']))
   \<and> fst (StartWorkflowBeta1 Latin1 (api None) (start_request ''wf-1'' ''kafka'' ''order'') w0)
       = Return (Some StartWorkflowResponse_zero)
           (Some (APIError ErrWorkflowComponentDoesNotExist [StrArg ''kafka'']))
   \<and> fst (TerminateWorkflowBeta1 Latin1 (api None) (request ''wf-1'' ''kafka'') w0)
       = Return (Some Empty) (Some (APIError ErrWorkflowComponentDoesNotExist [StrArg ''kafka'']))
   \<and> fst (RaiseEventWorkflowBeta1 Latin1 (api None)
            (event_request ''wf-1'' ''kafka'' ''paid'') w0)
       = Return (Some Empty) (Some (APIError ErrWorkflowComponentDoesNotExist [StrArg ''kafka'']))
   \<and> fst (PauseWorkflowBeta1 Latin1 (api None) (request ''wf-1'' ''kafka'') w0)
       = Return (Some Empty) (Some (APIError ErrWorkflowComponentDoesNotExist [StrArg ''kafka'']))
   \<and> fst (ResumeWorkflowBeta1 Latin1 (api None) (request ''wf-1'' ''kafka'') w0)
       = Return (Some Empty) (Some (APIError ErrWorkflowComponentDoesNotExist [StrArg ''kafka'']))
   \<and> fst (PurgeWorkflowBeta1 Latin1 (api None) (request ''wf-1'' ''kafka'') w0)
       = Return (Some Empty) (Some (APIError ErrWorkflowComponentDoesNotExist [StrArg ''kafka'']))
   \<and> calls (snd (PurgeWorkflowBeta1 Latin1 (api None) (request ''wf-1'' ''kafka'') w0)) = []
   \<and> fst (PurgeWorkflowBeta1 Latin1 (api None) (request ''wf-1'' []) w0)
       = Return (Some Empty) (Some (APIError ErrNoOrMissingWorkflowComponent []))"
  using C7_component_resolution [of "api None" w0 "''kafka''" "request ''wf-1'' ''kafka''"
      "APIError ErrWorkflowComponentDoesNotExist [StrArg ''kafka'']"
      "Logger_Debug (APIError ErrWorkflowComponentDoesNotExist [StrArg ''kafka''])
         (WaitForActorsReady w0)"
      Latin1 "start_request ''wf-1'' ''kafka'' ''order''"
      "event_request ''wf-1'' ''kafka'' ''paid''"]
    C7_component_resolution [of "api None" w0 "''kafka''" "request ''wf-1'' []"
      "APIError ErrNoOrMissingWorkflowComponent []" "WaitForActorsReady w0"
      Latin1 "start_request ''wf-1'' [] ''order''" "event_request ''wf-1'' [] ''paid''"]
  by (simp add: eval_defs)

section \<open>Failure paths\<close>

text \<open>
  Claim C9: on every failure path of every operation the handler returns a non-nil
  response that is the zero value (an empty response or an empty acknowledgement)
  together with a non-nil error, and no error is swallowed. For each handler: whatever
  it returns has the shape of \<open>failure_shape\<close> (next to an error the response is the
  zero value, and a response is never nil), and it returns no error only when the
  validation passed, the required name was present, the component resolved and the
  method of the component returned no error.
\<close>

theorem C9_failure_paths:
  "failure_shape GetWorkflowResponse_zero (fst (GetWorkflowBeta1 U a inp w))
   \<and> failure_shape StartWorkflowResponse_zero (fst (StartWorkflowBeta1 U a inpS w))
   \<and> failure_shape Empty (fst (TerminateWorkflowBeta1 U a inp w))
   \<and> failure_shape Empty (fst (RaiseEventWorkflowBeta1 U a inpR w))
   \<and> failure_shape Empty (fst (PauseWorkflowBeta1 U a inp w))
   \<and> failure_shape Empty (fst (ResumeWorkflowBeta1 U a inp w))
   \<and> failure_shape Empty (fst (PurgeWorkflowBeta1 U a inp w))
   \<and> (returned_error (fst (GetWorkflowBeta1 U a inp w)) = None \<longrightarrow>
        validateInstanceID U (InstanceId inp) False = None \<and>
        resolved_and_ok a (WorkflowComponent inp)
          (\<lambda>c. snd (fst (Get c (GetRequest (InstanceId inp)) (engine w)))))
   \<and> (returned_error (fst (StartWorkflowBeta1 U a inpS w)) = None \<longrightarrow>
        validateInstanceID U (InstanceId inpS) True = None \<and> WorkflowName inpS \<noteq> [] \<and>
        resolved_and_ok a (WorkflowComponent inpS)
          (\<lambda>c. snd (fst (Start c
                  (StartRequest (InstanceId inpS) (Options inpS) (WorkflowName inpS) (Input inpS))
                  (engine w)))))
   \<and> (returned_error (fst (TerminateWorkflowBeta1 U a inp w)) = None \<longrightarrow>
        validateInstanceID U (InstanceId inp) False = None \<and>
        resolved_and_ok a (WorkflowComponent inp)
          (\<lambda>c. fst (Terminate c (TerminateRequest (InstanceId inp)) (engine w))))
   \<and> (returned_error (fst (RaiseEventWorkflowBeta1 U a inpR w)) = None \<longrightarrow>
        validateInstanceID U (InstanceId inpR) False = None \<and> EventName inpR \<noteq> [] \<and>
        resolved_and_ok a (WorkflowComponent inpR)
          (\<lambda>c. fst (RaiseEvent c
                  (RaiseEventRequest (InstanceId inpR) (EventName inpR) (EventData inpR))
                  (engine w))))
   \<and> (returned_error (fst (PauseWorkflowBeta1 U a inp w)) = None \<longrightarrow>
        validateInstanceID U (InstanceId inp) False = None \<and>
        resolved_and_ok a (WorkflowComponent inp)
          (\<lambda>c. fst (Pause c (PauseRequest (InstanceId inp)) (engine w))))
   \<and> (returned_error (fst (ResumeWorkflowBeta1 U a inp w)) = None \<longrightarrow>
        validateInstanceID U (InstanceId inp) False = None \<and>
        resolved_and_ok a (WorkflowComponent inp)
          (\<lambda>c. fst (Resume c (ResumeRequest (InstanceId inp)) (engine w))))
   \<and> (returned_error (fst (PurgeWorkflowBeta1 U a inp w)) = None \<longrightarrow>
        validateInstanceID U (InstanceId inp) False = None \<and>
        resolved_and_ok a (WorkflowComponent inp)
          (\<lambda>c. fst (Purge c (PurgeRequest (InstanceId inp)) (engine w))))"
  by (intro conjI;
      rule Get_shape Start_shape Terminate_shape RaiseEvent_shape Pause_shape Resume_shape
           Purge_shape Get_no_error Start_no_error Terminate_no_error RaiseEvent_no_error
           Pause_no_error Resume_no_error Purge_no_error)

theorem C9_failure_paths_witness:
  "returned_error (fst (GetWorkflowBeta1 Latin1 (api None) (request ''wf-1'' ''redis'') w0)) = None
   \<and> returned_error (fst (StartWorkflowBeta1 Latin1 (api None)
                            (start_request ''wf-1'' ''redis'' ''order'') w0)) = None
   \<and> returned_error (fst (TerminateWorkflowBeta1 Latin1 (api None)
                            (request ''wf-1'' ''redis'') w0)) = None
   \<and> returned_error (fst (RaiseEventWorkflowBeta1 Latin1 (api None)
                            (event_request ''wf-1'' ''redis'' ''paid'') w0)) = None
   \<and> returned_error (fst (PauseWorkflowBeta1 Latin1 (api None)
                            (request ''wf-1'' ''redis'') w0)) = None
   \<and> returned_error (fst (ResumeWorkflowBeta1 Latin1 (api None)
                            (request ''wf-1'' ''redis'') w0)) = None
   \<and> returned_error (fst (PurgeWorkflowBeta1 Latin1 (api None)
                            (request ''wf-1'' ''redis'') w0)) = None
   \<and> resolved_and_ok (api None) ''redis'' (\<lambda>c. snd (fst (Get c (GetRequest ''wf-1'') 0)))
   \<and> resolved_and_ok (api None) ''redis''
        (\<lambda>c. snd (fst (Start c (StartRequest ''wf-1'' Map.empty ''order'' []) 0)))
   \<and> resolved_and_ok (api None) ''redis'' (\<lambda>c. fst (Terminate c (TerminateRequest ''wf-1'') 0))
   \<and> resolved_and_ok (api None) ''redis''
        (\<lambda>c. fst (RaiseEvent c (RaiseEventRequest ''wf-1'' ''paid'' []) 0))
   \<and> resolved_and_ok (api None) ''redis'' (\<lambda>c. fst (Pause c (PauseRequest ''wf-1'') 0))
   \<and> resolved_and_ok (api None) ''redis'' (\<lambda>c. fst (Resume c (ResumeRequest ''wf-1'') 0))
   \<and> resolved_and_ok (api None) ''redis'' (\<lambda>c. fst (Purge c (PurgeRequest ''wf-1'') 0))
   \<and> failure_shape GetWorkflowResponse_zero
        (fst (GetWorkflowBeta1 Latin1 (api (Some (EngineFailure ''boom'')))
                (request ''wf-1'' ''redis'') w0))
   \<and> fst (GetWorkflowBeta1 Latin1 (api (Some (EngineFailure ''boom'')))
             (request ''wf-1'' ''redis'') w0)
       = Return (Some GetWorkflowResponse_zero)
           (Some (APIError ErrWorkflowGetResponse
                    [StrArg ''wf-1'', ErrArg (EngineFailure ''boom'')]))"
proof -
  have runs:
    "returned_error (fst (GetWorkflowBeta1 Latin1 (api None) (request ''wf-1'' ''redis'') w0))
       = None"
    "returned_error (fst (StartWorkflowBeta1 Latin1 (api None)
                            (start_request ''wf-1'' ''redis'' ''order'') w0)) = None"
    "returned_error (fst (TerminateWorkflowBeta1 Latin1 (api None)
                            (request ''wf-1'' ''redis'') w0)) = None"
    "returned_error (fst (RaiseEventWorkflowBeta1 Latin1 (api None)
                            (event_request ''wf-1'' ''redis'' ''paid'') w0)) = None"
    "returned_error (fst (PauseWorkflowBeta1 Latin1 (api None)
                            (request ''wf-1'' ''redis'') w0)) = None"
    "returned_error (fst (ResumeWorkflowBeta1 Latin1 (api None)
                            (request ''wf-1'' ''redis'') w0)) = None"
    "returned_error (fst (PurgeWorkflowBeta1 Latin1 (api None)
                            (request ''wf-1'' ''redis'') w0)) = None"
    by (simp_all add: GetWorkflowBeta1_def StartWorkflowBeta1_def TerminateWorkflowBeta1_def
          RaiseEventWorkflowBeta1_def PauseWorkflowBeta1_def ResumeWorkflowBeta1_def
          PurgeWorkflowBeta1_def eval_defs)
  have failing:
    "fst (GetWorkflowBeta1 Latin1 (api (Some (EngineFailure ''boom'')))
            (request ''wf-1'' ''redis'') w0)
       = Return (Some GetWorkflowResponse_zero)
           (Some (APIError ErrWorkflowGetResponse
                    [StrArg ''wf-1'', ErrArg (EngineFailure ''boom'')]))"
    by (simp add: GetWorkflowBeta1_def eval_defs)
  have sel: "InstanceId (request ''wf-1'' ''redis'') = ''wf-1''"
    "WorkflowComponent (request ''wf-1'' ''redis'') = ''redis''"
    "InstanceId (start_request ''wf-1'' ''redis'' ''order'') = ''wf-1''"
    "WorkflowComponent (start_request ''wf-1'' ''redis'' ''order'') = ''redis''"
    "WorkflowName (start_request ''wf-1'' ''redis'' ''order'') = ''order''"
    "Options (start_request ''wf-1'' ''redis'' ''order'') = Map.empty"
    "Input (start_request ''wf-1'' ''redis'' ''order'') = []"
    "InstanceId (event_request ''wf-1'' ''redis'' ''paid'') = ''wf-1''"
    "WorkflowComponent (event_request ''wf-1'' ''redis'' ''paid'') = ''redis''"
    "EventName (event_request ''wf-1'' ''redis'' ''paid'') = ''paid''"
    "EventData (event_request ''wf-1'' ''redis'' ''paid'') = []"
    "engine w0 = 0"
    by (simp_all add: request_def start_request_def event_request_def w0_def)
  show ?thesis
    using runs failing
      C9_failure_paths [where U = Latin1 and a = "api None" and w = w0
        and inp = "request ''wf-1'' ''redis''"
        and inpS = "start_request ''wf-1'' ''redis'' ''order''"
        and inpR = "event_request ''wf-1'' ''redis'' ''paid''"]
      C9_failure_paths [where U = Latin1 and a = "api (Some (EngineFailure ''boom''))"
        and w = w0 and inp = "request ''wf-1'' ''redis''"
        and inpS = "start_request ''wf-1'' ''redis'' ''order''"
        and inpR = "event_request ''wf-1'' ''redis'' ''paid''"]
    by (simp add: sel)
qed

text \<open>
  Claim C10: the checks before the call run in a fixed order, the validation of the
  instance id first, then the required name of the operation, then the resolution of
  the component. An error of the validation is returned whatever the names are, in
  each of the seven handlers, so Start with an empty instance id and an empty workflow
  name, and RaiseEvent with an empty instance id and an empty event name, return
  \<open>ErrMissingOrEmptyInstance\<close> (\<open>MissingIdentifier\<close>); with a valid id, the empty
  name is reported whatever the component name is, before any component is resolved.
\<close>

theorem C10_order_of_checks:
  "(validateInstanceID U (InstanceId inpS) True = Some err \<longrightarrow>
      StartWorkflowBeta1 U a inpS w
        = (Return (Some StartWorkflowResponse_zero) (Some err), Logger_Debug err w))
   \<and> (validateInstanceID U (InstanceId inpR) False = Some err \<longrightarrow>
      RaiseEventWorkflowBeta1 U a inpR w
        = (Return (Some Empty) (Some err), Logger_Debug err w))
   \<and> (validateInstanceID U (InstanceId inp) False = Some err \<longrightarrow>
      GetWorkflowBeta1 U a inp w
        = (Return (Some GetWorkflowResponse_zero) (Some err), Logger_Debug err w)
      \<and> TerminateWorkflowBeta1 U a inp w
        = (Return (Some Empty) (Some err), Logger_Debug err w)
      \<and> PauseWorkflowBeta1 U a inp w
        = (Return (Some Empty) (Some err), Logger_Debug err w)
      \<and> ResumeWorkflowBeta1 U a inp w
        = (Return (Some Empty) (Some err), Logger_Debug err w)
      \<and> PurgeWorkflowBeta1 U a inp w
        = (Return (Some Empty) (Some err), Logger_Debug err w))
   \<and> (InstanceId inpS = [] \<and> WorkflowName inpS = [] \<longrightarrow>
      fails (StartWorkflowBeta1 U a inpS w) StartWorkflowResponse_zero MissingIdentifier
        (APIError ErrMissingOrEmptyInstance []))
   \<and> (InstanceId inpR = [] \<and> EventName inpR = [] \<longrightarrow>
      fails (RaiseEventWorkflowBeta1 U a inpR w) Empty MissingIdentifier
        (APIError ErrMissingOrEmptyInstance []))
   \<and> (validateInstanceID U (InstanceId inpS) True = None \<and> WorkflowName inpS = [] \<longrightarrow>
      StartWorkflowBeta1 U a inpS w
        = (Return (Some StartWorkflowResponse_zero) (Some (APIError ErrWorkflowNameMissing [])),
           Logger_Debug (APIError ErrWorkflowNameMissing []) w))
   \<and> (InstanceId inpR \<noteq> [] \<and> EventName inpR = [] \<longrightarrow>
      RaiseEventWorkflowBeta1 U a inpR w
        = (Return (Some Empty) (Some (APIError ErrMissingWorkflowEventName [])),
           Logger_Debug (APIError ErrMissingWorkflowEventName []) w))"
  using Start_invalid [of U inpS err a w] RaiseEvent_invalid [of U inpR err a w]
    Get_invalid [of U inp err a w] Terminate_invalid [of U inp err a w]
    Pause_invalid [of U inp err a w] Resume_invalid [of U inp err a w]
    Purge_invalid [of U inp err a w]
    Start_invalid [of U inpS "APIError ErrMissingOrEmptyInstance []" a w]
    RaiseEvent_invalid [of U inpR "APIError ErrMissingOrEmptyInstance []" a w]
    Start_no_name [of U inpS a w] RaiseEvent_no_name [of inpR U a w]
    validate_empty [of U True] validate_empty [of U False]
  by (auto simp: fails_def)

theorem C10_order_of_checks_witness:
  "StartWorkflowBeta1 Latin1 (api None) (start_request [] ''kafka'' []) w0
     = (Return (Some StartWorkflowResponse_zero) (Some (APIError ErrMissingOrEmptyInstance [])),
        Logger_Debug (APIError ErrMissingOrEmptyInstance []) w0)
   \<and> RaiseEventWorkflowBeta1 Latin1 (api None) (event_request [] ''kafka'' []) w0
     = (Return (Some Empty) (Some (APIError ErrMissingOrEmptyInstance [])),
        Logger_Debug (APIError ErrMissingOrEmptyInstance []) w0)
   \<and> GetWorkflowBeta1 Latin1 (api None) (request [] ''kafka'') w0
     = (Return (Some GetWorkflowResponse_zero) (Some (APIError ErrMissingOrEmptyInstance [])),
        Logger_Debug (APIError ErrMissingOrEmptyInstance []) w0)
   \<and> PurgeWorkflowBeta1 Latin1 (api None) (request [] ''kafka'') w0
     = (Return (Some Empty) (Some (APIError ErrMissingOrEmptyInstance [])),
        Logger_Debug (APIError ErrMissingOrEmptyInstance []) w0)
   \<and> fails (StartWorkflowBeta1 Latin1 (api None) (start_request [] ''kafka'' []) w0)
        StartWorkflowResponse_zero MissingIdentifier (APIError ErrMissingOrEmptyInstance [])
   \<and> fails (RaiseEventWorkflowBeta1 Latin1 (api None) (event_request [] ''kafka'' []) w0)
        Empty MissingIdentifier (APIError ErrMissingOrEmptyInstance [])
   \<and> StartWorkflowBeta1 Latin1 (api None) (start_request ''wf-1'' ''kafka'' []) w0
     = (Return (Some StartWorkflowResponse_zero) (Some (APIError ErrWorkflowNameMissing [])),
        Logger_Debug (APIError ErrWorkflowNameMissing []) w0)
   \<and> RaiseEventWorkflowBeta1 Latin1 (api None) (event_request ''wf-1'' ''kafka'' []) w0
     = (Return (Some Empty) (Some (APIError ErrMissingWorkflowEventName [])),
        Logger_Debug (APIError ErrMissingWorkflowEventName []) w0)"
proof -
  have sel:
    "InstanceId (start_request [] ''kafka'' []) = []"
    "WorkflowName (start_request [] ''kafka'' []) = []"
    "InstanceId (event_request [] ''kafka'' []) = []"
    "EventName (event_request [] ''kafka'' []) = []"
    "InstanceId (start_request ''wf-1'' ''kafka'' []) = ''wf-1''"
    "WorkflowName (start_request ''wf-1'' ''kafka'' []) = []"
    "InstanceId (event_request ''wf-1'' ''kafka'' []) = ''wf-1''"
    "EventName (event_request ''wf-1'' ''kafka'' []) = []"
    "InstanceId (request [] ''kafka'') = []"
    by (simp_all add: start_request_def event_request_def request_def)
  have v:
    "validateInstanceID Latin1 [] True = Some (APIError ErrMissingOrEmptyInstance [])"
    "validateInstanceID Latin1 [] False = Some (APIError ErrMissingOrEmptyInstance [])"
    "validateInstanceID Latin1 ''wf-1'' True = None"
    by (simp_all add: validateInstanceID_def maxInstanceIDLength_def range_string_def
          decoderune_def Latin1_def)
  show ?thesis
    using C10_order_of_checks [where U = Latin1 and a = "api None" and w = w0
        and err = "APIError ErrMissingOrEmptyInstance []"
        and inp = "request [] ''kafka''"
        and inpS = "start_request [] ''kafka'' []" and inpR = "event_request [] ''kafka'' []"]
      C10_order_of_checks [where U = Latin1 and a = "api None" and w = w0
        and err = "APIError ErrMissingOrEmptyInstance []"
        and inp = "request [] ''kafka''"
        and inpS = "start_request ''wf-1'' ''kafka'' []"
        and inpR = "event_request ''wf-1'' ''kafka'' []"]
    by (simp add: sel v fails_def)
qed


end
